theory Spec2Isabelle
  imports Main "HOL-Library.AList"
begin

text \<open>
  A model of the HTTP/1.1 command-line client: the socket wrapper, the connection
  manager, the HTTP message classes with the response parser, the client that drives
  one request, and the percent-encoding helpers. Functions that talk to the operating
  system take the answers of the system calls as arguments; an exception is the left
  summand of a result, and a loop that has not ended on the answers given is \<open>None\<close>.
\<close>

section \<open>Exceptions and C library helpers\<close>

text \<open>
  The text carried by a \<^verbatim>\<open>std::runtime_error\<close>: either a fixed literal, or a literal
  followed by \<^verbatim>\<open>strerror\<close> of an error number.
\<close>

datatype what = Msg string | Msg_strerror string int

text \<open>
  The exception classes the client raises. Every one of them derives from
  \<^verbatim>\<open>std::exception\<close>; \<^verbatim>\<open>std::system_error\<close> derives from
  \<^verbatim>\<open>std::runtime_error\<close>.
\<close>

datatype exn =
    Runtime_error what
  | System_error int string
  | Invalid_argument string
  | Out_of_range string

fun is_runtime_error :: "exn \<Rightarrow> bool" where
  "is_runtime_error (Runtime_error w) = True"
| "is_runtime_error (System_error e w) = True"
| "is_runtime_error (Invalid_argument w) = False"
| "is_runtime_error (Out_of_range w) = False"

fun is_std_exception :: "exn \<Rightarrow> bool" where
  "is_std_exception (Runtime_error w) = True"
| "is_std_exception (System_error e w) = True"
| "is_std_exception (Invalid_argument w) = True"
| "is_std_exception (Out_of_range w) = True"

definition EINTR :: int where "EINTR = 4"
definition EAGAIN :: int where "EAGAIN = 11"
definition EWOULDBLOCK :: int where "EWOULDBLOCK = 11"
definition EINPROGRESS :: int where "EINPROGRESS = 115"

text \<open>\<^verbatim>\<open>isspace\<close> and \<^verbatim>\<open>tolower\<close> in the C locale (the program never sets another).\<close>

definition isspace :: "char \<Rightarrow> bool" where
  "isspace c = (c = CHR '' '' \<or> (9 \<le> (of_char c :: nat) \<and> (of_char c :: nat) \<le> 13))"

definition tolower :: "char \<Rightarrow> char" where
  "tolower c =
     (if 65 \<le> (of_char c :: nat) \<and> (of_char c :: nat) \<le> 90
      then char_of ((of_char c :: nat) + 32) else c)"

text \<open>The value of a character as a digit (\<^verbatim>\<open>strtol\<close>): 0-9, then letters from 10.\<close>

definition digit_of :: "char \<Rightarrow> nat option" where
  "digit_of c =
     (let n = (of_char c :: nat) in
      if 48 \<le> n \<and> n \<le> 57 then Some (n - 48)
      else if 97 \<le> n \<and> n \<le> 122 then Some (n - 87)
      else if 65 \<le> n \<and> n \<le> 90 then Some (n - 55)
      else None)"

definition is_digit :: "nat \<Rightarrow> char \<Rightarrow> bool" where
  "is_digit base c = (case digit_of c of None \<Rightarrow> False | Some d \<Rightarrow> d < base)"

definition digits_value :: "nat \<Rightarrow> string \<Rightarrow> nat" where
  "digits_value base ds = foldl (\<lambda>acc c. acc * base + the (digit_of c)) 0 ds"

text \<open>
  The part of a numeric string that \<^verbatim>\<open>strtol\<close>/\<^verbatim>\<open>strtoul\<close> converts: leading white
  space is skipped, one sign is accepted, in base 16 a \<^verbatim>\<open>0x\<close> prefix is skipped when a
  hexadecimal digit follows it, and the longest run of digits is taken. The result is
  the sign and the digits.
\<close>

definition has_hex_prefix :: "string \<Rightarrow> bool" where
  "has_hex_prefix s =
     (case s of
        c0 # c1 # c2 # _ \<Rightarrow> c0 = CHR ''0'' \<and> (c1 = CHR ''x'' \<or> c1 = CHR ''X'') \<and> is_digit 16 c2
      | _ \<Rightarrow> False)"

definition scan_number :: "nat \<Rightarrow> string \<Rightarrow> bool \<times> string" where
  "scan_number base s =
     (let s1 = dropWhile isspace s;
          neg = (case s1 of c # _ \<Rightarrow> c = CHR ''-'' | [] \<Rightarrow> False);
          s2 = (case s1 of c # r \<Rightarrow> if c = CHR ''-'' \<or> c = CHR ''+'' then r else s1 | [] \<Rightarrow> s1);
          s3 = (if base = 16 \<and> has_hex_prefix s2 then drop 2 s2 else s2)
      in (neg, takeWhile (is_digit base) s3))"

text \<open>
  \<^verbatim>\<open>std::stoi(str, nullptr, base)\<close>: \<^verbatim>\<open>std::invalid_argument\<close> when no digit can be
  converted, \<^verbatim>\<open>std::out_of_range\<close> when the value does not fit an \<^verbatim>\<open>int\<close>.
\<close>

definition stoi :: "string \<Rightarrow> nat \<Rightarrow> exn + int" where
  "stoi str base =
     (case scan_number base str of (neg, ds) \<Rightarrow>
        if ds = [] then Inl (Invalid_argument ''stoi'')
        else let v = int (digits_value base ds); r = (if neg then - v else v)
             in if r < - (2 ^ 31) \<or> 2 ^ 31 - 1 < r then Inl (Out_of_range ''stoi'') else Inr r)"

text \<open>
  \<^verbatim>\<open>std::stoul(str)\<close> in base 10 on a 64-bit \<^verbatim>\<open>unsigned long\<close>: a leading minus
  sign negates the value modulo \<open>2 ^ 64\<close>. Values of C integer types are kept as
  integers in the range of the type.
\<close>

definition stoul :: "string \<Rightarrow> exn + int" where
  "stoul str =
     (case scan_number 10 str of (neg, ds) \<Rightarrow>
        if ds = [] then Inl (Invalid_argument ''stoul'')
        else let v = int (digits_value 10 ds)
             in if 2 ^ 64 \<le> v then Inl (Out_of_range ''stoul'')
                else Inr (if neg then (2 ^ 64 - v) mod 2 ^ 64 else v))"

section \<open>String utilities (\<^verbatim>\<open>n_utils::str_manip\<close>)\<close>

definition toLower :: "string \<Rightarrow> string" where
  "toLower str = map tolower str"

definition trim :: "string \<Rightarrow> string" where
  "trim str = rev (dropWhile isspace (rev (dropWhile isspace str)))"

section \<open>Percent-encoding (\<^verbatim>\<open>http::encoding\<close>)\<close>

definition ENCODING_MAP :: "(char \<times> string) list" where
  "ENCODING_MAP =
    [(CHR '' '', ''%20''), (CHR ''!'', ''%21''), (CHR 0x22, ''%22''), (CHR ''#'', ''%23''),
     (CHR ''$'', ''%24''), (CHR ''%'', ''%25''), (CHR ''&'', ''%26''), (CHR 0x27, ''%27''),
     (CHR ''('', ''%28''), (CHR '')'', ''%29''), (CHR ''*'', ''%2A''), (CHR ''+'', ''%2B''),
     (CHR '','', ''%2C''), (CHR ''-'', ''%2D''), (CHR ''.'', ''%2E''), (CHR ''/'', ''%2F''),
     (CHR '':'', ''%3A''), (CHR '';'', ''%3B''), (CHR ''<'', ''%3C''), (CHR ''='', ''%3D''),
     (CHR ''>'', ''%3E''), (CHR ''?'', ''%3F''), (CHR ''@'', ''%40''), (CHR ''['', ''%5B''),
     (CHR 0x5C, ''%5C''), (CHR '']'', ''%5D''), (CHR ''^'', ''%5E''), (CHR ''_'', ''%5F''),
     (CHR 0x60, ''%60''), (CHR ''{'', ''%7B''), (CHR ''|'', ''%7C''), (CHR ''}'', ''%7D''),
     (CHR ''~'', ''%7E'')]"

definition encode_char :: "char \<Rightarrow> string" where
  "encode_char c = (case map_of ENCODING_MAP c of Some s \<Rightarrow> s | None \<Rightarrow> [c])"

fun encode :: "string \<Rightarrow> string" where
  "encode [] = []"
| "encode (c # str) = encode_char c @ encode str"

text \<open>
  \<^verbatim>\<open>decode\<close> walks the string by index. At a percent sign with at least two characters
  after it (\<^verbatim>\<open>i + 2 < str.size()\<close>) the two characters go through \<^verbatim>\<open>std::stoi\<close> in
  base 16; on success the value is cast to \<^verbatim>\<open>char\<close> and the index skips them, on an
  exception a percent sign is appended and only the percent sign is consumed.
\<close>

fun decode :: "string \<Rightarrow> string" where
  "decode (c # h1 # h2 # str) =
     (if c = CHR ''%'' then
        (case stoi [h1, h2] 16 of
           Inr v \<Rightarrow> char_of v # decode str
         | Inl e \<Rightarrow> CHR ''%'' # decode (h1 # h2 # str))
      else c # decode (h1 # h2 # str))"
| "decode (c # str) = c # decode str"
| "decode [] = []"

definition entry_ok :: "char \<times> string \<Rightarrow> bool" where
  "entry_ok e =
     (case snd e of
        [p, h1, h2] \<Rightarrow> p = CHR ''%'' \<and> stoi [h1, h2] 16 = Inr (of_char (fst e))
      | _ \<Rightarrow> False)"


section \<open>Searching in strings (\<^verbatim>\<open>std::string::find\<close>, \<^verbatim>\<open>substr\<close>)\<close>

definition CRLF :: string where
  "CRLF = [CHR 0x0D, CHR 0x0A]"

text \<open>The first index at which \<open>pat\<close> occurs in \<open>s\<close>; \<open>None\<close> is \<^verbatim>\<open>npos\<close>.\<close>

fun find_str :: "string \<Rightarrow> string \<Rightarrow> nat option" where
  "find_str pat [] = (if pat = [] then Some 0 else None)"
| "find_str pat (c # s) =
     (if take (length pat) (c # s) = pat then Some 0 else map_option Suc (find_str pat s))"

text \<open>\<^verbatim>\<open>s.find(pat, pos)\<close>: the search starts at index \<open>pos\<close>.\<close>

definition find_from :: "string \<Rightarrow> string \<Rightarrow> nat \<Rightarrow> nat option" where
  "find_from s pat pos =
     (if length s < pos then None else map_option (\<lambda>i. i + pos) (find_str pat (drop pos s)))"

text \<open>
  \<^verbatim>\<open>s.substr(pos, n)\<close> and \<^verbatim>\<open>s.substr(pos)\<close>, for \<open>pos \<le> length s\<close> (every call of the
  program is within this range).
\<close>

definition substr :: "string \<Rightarrow> nat \<Rightarrow> nat \<Rightarrow> string" where
  "substr s pos n = take n (drop pos s)"

definition substr_from :: "string \<Rightarrow> nat \<Rightarrow> string" where
  "substr_from s pos = drop pos s"

section \<open>HTTP messages (\<^verbatim>\<open>HttpMessage\<close>, \<^verbatim>\<open>HttpRequest\<close>, \<^verbatim>\<open>HttpResponse\<close>)\<close>

text \<open>
  The header table is an \<^verbatim>\<open>unordered_map\<close> from string to string. It is modelled as an
  association list: \<open>map_of\<close> is the lookup, \<open>AList.update\<close> is \<^verbatim>\<open>headers[k] = v\<close>
  (overwrite the entry of an existing key, add an entry otherwise), and the order of the
  list stands for the order in which the table is iterated.
\<close>

record HttpMessage =
  version :: string
  headers :: "(string \<times> string) list"
  body :: string

text \<open>The field \<^verbatim>\<open>method\<close> of the request is called \<open>methodStr\<close> here.\<close>

record HttpRequest = HttpMessage +
  methodStr :: string
  uri :: string

text \<open>The status is the integer value of the \<^verbatim>\<open>http::status::Code\<close> enumerator.\<close>

record HttpResponse = HttpMessage +
  status :: int
  keepAlive :: bool

definition getHeader :: "'a HttpMessage_scheme \<Rightarrow> string \<Rightarrow> string option" where
  "getHeader m key = map_of (headers m) (toLower key)"

definition setHeader :: "'a HttpMessage_scheme \<Rightarrow> string \<Rightarrow> string \<Rightarrow> 'a HttpMessage_scheme" where
  "setHeader m key val = m\<lparr>headers := AList.update (toLower key) val (headers m)\<rparr>"

definition setBody :: "'a HttpMessage_scheme \<Rightarrow> string \<Rightarrow> 'a HttpMessage_scheme" where
  "setBody m b = m\<lparr>body := b\<rparr>"

text \<open>A message as its constructor leaves it, before any header is set.\<close>

definition HttpMessage_init :: HttpMessage where
  "HttpMessage_init = \<lparr>version = ''HTTP/1.1'', headers = [], body = []\<rparr>"

text \<open>
  Two keys that differ at most in the case of their letters: same length, and at every
  position the same character or the upper-case and lower-case form of one ASCII letter.
\<close>

definition same_letter :: "char \<Rightarrow> char \<Rightarrow> bool" where
  "same_letter a b =
     (let x = (of_char a :: nat); y = (of_char b :: nat)
      in a = b \<or> (65 \<le> x \<and> x \<le> 90 \<and> y = x + 32) \<or> (65 \<le> y \<and> y \<le> 90 \<and> x = y + 32))"

definition differ_only_in_case :: "string \<Rightarrow> string \<Rightarrow> bool" where
  "differ_only_in_case k1 k2 = list_all2 same_letter k1 k2"

text \<open>A string without an upper-case ASCII letter.\<close>

definition no_upper :: "string \<Rightarrow> bool" where
  "no_upper k = list_all (\<lambda>c. \<not> (65 \<le> (of_char c :: nat) \<and> (of_char c :: nat) \<le> 90)) k"

text \<open>The keys of a header table are pairwise different and in lower case.\<close>

definition keys_normalized :: "(string \<times> string) list \<Rightarrow> bool" where
  "keys_normalized hs = (distinct (map fst hs) \<and> list_all no_upper (map fst hs))"

subsection \<open>Status codes\<close>

definition INVALID :: int where
  "INVALID = 0"

text \<open>The keys of \<^verbatim>\<open>REASON_MAP\<close>, as integers.\<close>

definition REASON_MAP_codes :: "int list" where
  "REASON_MAP_codes =
    [100, 101, 102, 103, 200, 201, 202, 203, 204, 205, 206, 207, 208, 226,
     300, 301, 302, 303, 304, 305, 306, 307, 308,
     400, 401, 402, 403, 404, 405, 406, 407, 408, 409, 410, 411, 412, 413, 414, 415, 416,
     417, 418, 421, 422, 423, 424, 425, 426, 428, 429, 431, 451,
     500, 501, 502, 503, 504, 505, 0]"

definition fromString :: "string \<Rightarrow> int" where
  "fromString str =
     (case stoi str 10 of
        Inl e \<Rightarrow> INVALID
      | Inr codeValue \<Rightarrow> if codeValue \<in> set REASON_MAP_codes then codeValue else INVALID)"

subsection \<open>Parsing a response\<close>

definition HttpResponse_init :: HttpResponse where
  "HttpResponse_init =
     \<lparr>version = ''HTTP/1.1'', headers = [], body = [], status = 200, keepAlive = True\<rparr>"

definition isKeepAlive :: "HttpResponse \<Rightarrow> bool" where
  "isKeepAlive r = keepAlive r"

definition determineKeepAlive :: "HttpResponse \<Rightarrow> HttpResponse" where
  "determineKeepAlive r =
     (case getHeader r ''Connection'' of
        Some connectionHeader \<Rightarrow>
          r\<lparr>keepAlive := (toLower (trim connectionHeader) = ''keep-alive'')\<rparr>
      | None \<Rightarrow> r)"

definition parseStartLine :: "HttpResponse \<Rightarrow> string \<Rightarrow> bool \<times> HttpResponse" where
  "parseStartLine r line =
     (case find_str '' '' line of
        None \<Rightarrow> (False, r)
      | Some versionEnd \<Rightarrow>
          (case find_from line '' '' (versionEnd + 1) of
             None \<Rightarrow> (False, r)
           | Some statusCodeEnd \<Rightarrow>
               let versionStr = substr line 0 versionEnd;
                   statusCodeStr = substr line (versionEnd + 1) (statusCodeEnd - versionEnd - 1);
                   code = fromString statusCodeStr
               in if code = INVALID then (False, r)
                  else (True, r\<lparr>version := versionStr, status := code\<rparr>)))"

text \<open>
  One header line: ignored when empty or without a colon; otherwise the key is the text
  before the first colon and the value starts at the first character after the colon
  that is not a space (\<^verbatim>\<open>find_first_not_of(" ", separator + 1)\<close>), empty when there is none.
\<close>

definition parseHeaderLine :: "HttpResponse \<Rightarrow> string \<Rightarrow> HttpResponse" where
  "parseHeaderLine r header =
     (if header = [] then r
      else case find_str '':'' header of
             None \<Rightarrow> r
           | Some separator \<Rightarrow>
               setHeader r (substr header 0 separator)
                 (dropWhile (\<lambda>c. c = CHR '' '') (substr_from header (separator + 1))))"

text \<open>The end of the header line that starts at \<open>pos\<close>, and the position after it.\<close>

definition line_end :: "string \<Rightarrow> nat \<Rightarrow> nat" where
  "line_end headersBlock pos =
     (case find_from headersBlock CRLF pos of None \<Rightarrow> length headersBlock | Some e \<Rightarrow> e)"

definition next_pos :: "string \<Rightarrow> nat \<Rightarrow> nat" where
  "next_pos headersBlock pos =
     (let e = line_end headersBlock pos in if e = length headersBlock then e else e + 2)"

function parseHeaders_from :: "HttpResponse \<Rightarrow> string \<Rightarrow> nat \<Rightarrow> HttpResponse" where
  "parseHeaders_from r headersBlock pos =
     (if pos < length headersBlock then
        parseHeaders_from
          (parseHeaderLine r
             (substr headersBlock pos (line_end headersBlock pos - pos)))
          headersBlock (next_pos headersBlock pos)
      else r)"
  by pat_completeness auto
termination
proof (relation "measure (\<lambda>(r, headersBlock, pos). length headersBlock - pos)")
  show "wf (measure (\<lambda>(r, headersBlock, pos). length headersBlock - pos))"
    by simp
next
  fix r :: HttpResponse and headersBlock :: string and pos :: nat
  assume lt: "pos < length headersBlock"
  have "pos < next_pos headersBlock pos"
    using lt
    by (auto simp: next_pos_def line_end_def find_from_def Let_def split: option.splits)
  moreover have "next_pos headersBlock pos \<le> length headersBlock \<or> pos < length headersBlock"
    using lt by simp
  ultimately show
    "((parseHeaderLine r (substr headersBlock pos (line_end headersBlock pos - pos)),
       headersBlock, next_pos headersBlock pos), (r, headersBlock, pos))
      \<in> measure (\<lambda>(r, headersBlock, pos). length headersBlock - pos)"
    using lt by simp
qed

declare parseHeaders_from.simps [simp del]

definition parseHeaders :: "HttpResponse \<Rightarrow> string \<Rightarrow> HttpResponse" where
  "parseHeaders r headersBlock = parseHeaders_from r headersBlock 0"

text \<open>
  \<^verbatim>\<open>parseBody\<close>: both exceptions of \<^verbatim>\<open>std::stoul\<close> are caught and make the parse fail.
\<close>

definition parseBody :: "HttpResponse \<Rightarrow> string \<Rightarrow> nat \<Rightarrow> bool \<times> HttpResponse" where
  "parseBody r rawData bodyStart =
     (if bodyStart < length rawData then
        (case getHeader r ''Content-Length'' of
           Some contentLengthHeader \<Rightarrow>
             (case stoul contentLengthHeader of
                Inr contentLength \<Rightarrow>
                  if contentLength \<le> int (length rawData - bodyStart)
                  then (True, setBody r (substr rawData bodyStart (nat contentLength)))
                  else (False, r)
              | Inl e \<Rightarrow> (False, r))
         | None \<Rightarrow> (True, r))
      else (True, setBody r []))"

definition parse :: "HttpResponse \<Rightarrow> string \<Rightarrow> bool \<times> HttpResponse" where
  "parse r rawData =
     (case find_str CRLF rawData of
        None \<Rightarrow> (False, r)
      | Some startLineEnd \<Rightarrow>
          (case parseStartLine r (substr rawData 0 startLineEnd) of
             (False, r1) \<Rightarrow> (False, r1)
           | (True, r1) \<Rightarrow>
               let headersStart = startLineEnd + 2 in
               (case find_from rawData (CRLF @ CRLF) headersStart of
                  None \<Rightarrow> (False, r1)
                | Some headersEnd \<Rightarrow>
                    let headersBlock = substr rawData headersStart (headersEnd - headersStart);
                        r2 = determineKeepAlive (parseHeaders r1 headersBlock);
                        bodyStart = headersEnd + 4
                    in parseBody r2 rawData bodyStart)))"

section \<open>The transport socket (\<^verbatim>\<open>Socket\<close>)\<close>

unbundle bit_operations_syntax

text \<open>
  A socket object owns a descriptor; the file status flags that the operating system
  keeps for the descriptor are carried along with it.
\<close>

record Socket =
  socket_fd :: int
  status_flags :: int

definition O_RDWR :: int where "O_RDWR = 2"
definition O_NONBLOCK :: int where "O_NONBLOCK = 2048"

definition is_nonblocking :: "Socket \<Rightarrow> bool" where
  "is_nonblocking s = (status_flags s AND O_NONBLOCK \<noteq> 0)"

text \<open>
  What the operating system and the C library answer during one connection attempt:
  the return value of each call and the \<^verbatim>\<open>errno\<close> it leaves. \<open>poll_rets\<close> lists the
  answers of the successive \<^verbatim>\<open>poll\<close> calls.
\<close>

record connect_world =
  socket_ret :: int
  socket_errno :: int
  setsockopt_ret :: int
  setsockopt_errno :: int
  inet_pton_ret :: int
  getfl_ret :: int
  setfl_ret :: int
  connect_ret :: int
  connect_errno :: int
  poll_rets :: "(int \<times> int) list"
  getsockopt_ret :: int
  getsockopt_errno :: int
  so_error :: int

text \<open>The constructor \<^verbatim>\<open>Socket(domain, type, protocol)\<close>.\<close>

definition Socket_create :: "connect_world \<Rightarrow> exn + Socket" where
  "Socket_create w =
     (if socket_ret w < 0
      then Inl (Runtime_error (Msg_strerror ''Failed to create socket: '' (socket_errno w)))
      else if setsockopt_ret w < 0
      then Inl (Runtime_error (Msg_strerror ''Failed to set socket options: '' (setsockopt_errno w)))
      else Inr \<lparr>socket_fd = socket_ret w, status_flags = O_RDWR\<rparr>)"

text \<open>
  \<^verbatim>\<open>setNonBlocking\<close>: \<open>getfl\<close> and \<open>setfl\<close> are the return values of the two
  \<^verbatim>\<open>fcntl\<close> calls. An exception leaves the socket as it was.
\<close>

definition setNonBlocking :: "Socket \<Rightarrow> bool \<Rightarrow> int \<Rightarrow> int \<Rightarrow> exn + Socket" where
  "setNonBlocking s enable getfl setfl =
     (let flags = getfl in
      if flags < 0 then Inl (Runtime_error (Msg ''Failed to get socket flags''))
      else let flags' = (if enable then flags OR O_NONBLOCK else flags AND NOT O_NONBLOCK)
           in if setfl < 0
              then Inl (Runtime_error (Msg ''Failed to set socket to non-blocking mode''))
              else Inr (s\<lparr>status_flags := flags'\<rparr>))"

text \<open>
  The loop \<^verbatim>\<open>do poll_result = poll(...) while (poll_result < 0 && errno == EINTR)\<close>
  over the answers of \<^verbatim>\<open>poll\<close>: the first answer that is not an interruption, or
  \<open>None\<close> while every answer so far was one.
\<close>

fun poll_retry :: "(int \<times> int) list \<Rightarrow> (int \<times> int) option" where
  "poll_retry [] = None"
| "poll_retry ((poll_result, errno) # rest) =
     (if poll_result < 0 \<and> errno = EINTR then poll_retry rest else Some (poll_result, errno))"

text \<open>An answer of \<^verbatim>\<open>poll\<close> that reports an interruption by a signal.\<close>

definition interrupted :: "int \<times> int \<Rightarrow> bool" where
  "interrupted p = (fst p < 0 \<and> snd p = EINTR)"

text \<open>
  \<^verbatim>\<open>Socket::connect\<close>. The result is the exception or normal return together with the
  socket afterwards; \<open>None\<close> when \<^verbatim>\<open>poll\<close> is interrupted every time. The timeout is
  handed to every \<^verbatim>\<open>poll\<close> call; how long a call takes is not part of the model.
\<close>

definition Socket_connect ::
  "Socket \<Rightarrow> connect_world \<Rightarrow> int \<Rightarrow> ((exn + unit) \<times> Socket) option" where
  "Socket_connect s w timeout_ms =
     (case setNonBlocking s True (getfl_ret w) (setfl_ret w) of
        Inl e \<Rightarrow> Some (Inl e, s)
      | Inr s1 \<Rightarrow>
          if connect_ret w = 0 then Some (Inr (), s1)
          else if connect_errno w \<noteq> EINPROGRESS
          then Some (Inl (Runtime_error (Msg_strerror [] (connect_errno w))), s1)
          else
            (case poll_retry (poll_rets w) of
               None \<Rightarrow> None
             | Some (poll_result, errno) \<Rightarrow>
                 if poll_result = 0
                 then Some (Inl (Runtime_error (Msg ''Connection timed out'')), s1)
                 else if poll_result < 0
                 then Some (Inl (Runtime_error (Msg_strerror ''Poll error during connect: '' errno)), s1)
                 else if getsockopt_ret w < 0
                 then Some (Inl (Runtime_error
                        (Msg_strerror ''getsockopt failed: '' (getsockopt_errno w))), s1)
                 else if so_error w \<noteq> 0
                 then Some (Inl (Runtime_error
                        (Msg_strerror ''connect() failed: '' (so_error w))), s1)
                 else Some (Inr (), s1)))"

text \<open>
  What one \<^verbatim>\<open>::recv\<close> call meets: an error with its \<^verbatim>\<open>errno\<close>, or bytes ready to be
  read (none when the peer has closed). The call returns \<open>-1\<close> on an error and otherwise
  the number of bytes it copied, at most \<open>len\<close>.
\<close>

datatype recv_result = Recv_fails int | Recv_gets string

text \<open>The first \<open>n\<close> bytes, for a count \<open>n\<close> of a C integer type.\<close>

fun take_bytes :: "int \<Rightarrow> string \<Rightarrow> string" where
  "take_bytes n [] = []"
| "take_bytes n (c # cs) = (if n \<le> 0 then [] else c # take_bytes (n - 1) cs)"

fun os_recv :: "recv_result \<Rightarrow> int \<Rightarrow> int \<times> string" where
  "os_recv (Recv_fails errno) len = (- 1, [])"
| "os_recv (Recv_gets bytes) len = (int (length (take_bytes len bytes)), take_bytes len bytes)"

fun recv_errno :: "recv_result \<Rightarrow> int" where
  "recv_errno (Recv_fails errno) = errno"
| "recv_errno (Recv_gets bytes) = 0"

text \<open>\<^verbatim>\<open>Socket::recv\<close>: the value returned and the bytes placed in the buffer.\<close>

definition Socket_recv :: "recv_result \<Rightarrow> int \<Rightarrow> exn + (int \<times> string)" where
  "Socket_recv r len =
     (case os_recv r len of (bytesRead, buf) \<Rightarrow>
        if bytesRead < 0 then
          (if recv_errno r \<noteq> EAGAIN \<and> recv_errno r \<noteq> EWOULDBLOCK
           then Inl (System_error (recv_errno r) ''Failed to receive data'')
           else Inr (bytesRead, buf))
        else Inr (bytesRead, buf))"

text \<open>
  What one \<^verbatim>\<open>::send\<close> call meets: an error with its \<^verbatim>\<open>errno\<close>, or room for a number
  of bytes. The call is offered the bytes from \<^verbatim>\<open>data + totalSent\<close> to the end of the
  buffer; it returns \<open>-1\<close> on an error and otherwise the number of bytes it took, at most
  the number offered. The second component is the bytes it took.
\<close>

datatype send_result = Send_fails int | Send_takes nat

fun os_send :: "send_result \<Rightarrow> string \<Rightarrow> int \<times> string" where
  "os_send (Send_fails errno) offered = (- 1, [])"
| "os_send (Send_takes k) offered = (int (length (take k offered)), take k offered)"

fun send_errno :: "send_result \<Rightarrow> int" where
  "send_errno (Send_fails errno) = errno"
| "send_errno (Send_takes k) = 0"

text \<open>The conversion of a \<^verbatim>\<open>size_t\<close> value to the 64-bit \<^verbatim>\<open>ssize_t\<close> return type.\<close>

definition ssize_of_size :: "int \<Rightarrow> int" where
  "ssize_of_size n = (if n < 2 ^ 63 then n else n - 2 ^ 64)"

text \<open>
  The loop of \<^verbatim>\<open>Socket::send\<close> over the answers of the successive \<^verbatim>\<open>::send\<close> calls.
  \<open>buf\<close> is the buffer of \<^verbatim>\<open>len\<close> bytes and \<open>wire\<close> collects, in order, the bytes that
  the calls have taken. The result is the exception or the value returned, together with
  the bytes taken; \<open>None\<close> when the answers run out while bytes remain to be sent.
\<close>

fun send_loop ::
  "string \<Rightarrow> int \<Rightarrow> string \<Rightarrow> send_result list \<Rightarrow> ((exn + int) \<times> string) option" where
  "send_loop buf totalSent wire [] =
     (if totalSent < int (length buf) then None
      else Some (Inr (ssize_of_size totalSent), wire))"
| "send_loop buf totalSent wire (r # rest) =
     (if totalSent < int (length buf) then
        (case os_send r (drop (nat totalSent) buf) of (bytesSent, taken) \<Rightarrow>
           if bytesSent < 0 then
             (if send_errno r = EAGAIN \<or> send_errno r = EWOULDBLOCK
              then send_loop buf totalSent wire rest
              else Some (Inl (System_error (send_errno r) ''Failed to send data''), wire))
           else send_loop buf (totalSent + bytesSent) (wire @ taken) rest)
      else Some (Inr (ssize_of_size totalSent), wire))"

declare send_loop.simps [simp del]

definition Socket_send :: "string \<Rightarrow> send_result list \<Rightarrow> ((exn + int) \<times> string) option" where
  "Socket_send buf answers = send_loop buf 0 [] answers"

text \<open>The error numbers that mean the call would block.\<close>

definition would_block :: "int \<Rightarrow> bool" where
  "would_block e = (e = EAGAIN \<or> e = EWOULDBLOCK)"



section \<open>The connection manager (\<^verbatim>\<open>ConnectionManager\<close>)\<close>

record ConnectionManager =
  socket :: "Socket option"
  connected :: bool

definition TIMEOUT_MS :: int where "TIMEOUT_MS = 5000"
definition BUFFER_SIZE :: int where "BUFFER_SIZE = 128 * 1024"

definition ConnectionManager_init :: ConnectionManager where
  "ConnectionManager_init = \<lparr>socket = None, connected = False\<rparr>"

text \<open>
  The connected flag is only set while a socket is held. The constructor establishes
  this and every operation of the manager keeps it.
\<close>

definition manager_inv :: "ConnectionManager \<Rightarrow> bool" where
  "manager_inv m = (socket m = None \<longrightarrow> \<not> connected m)"

text \<open>
  \<^verbatim>\<open>isConnected\<close>: \<open>result\<close> and \<open>errno\<close> are the answer of the one-byte
  \<^verbatim>\<open>recv\<close> with \<^verbatim>\<open>MSG_PEEK | MSG_DONTWAIT\<close>. The value returned and the manager
  afterwards.
\<close>

definition isConnected :: "ConnectionManager \<Rightarrow> int \<times> int \<Rightarrow> bool \<times> ConnectionManager" where
  "isConnected m peeked =
     (case socket m of
        None \<Rightarrow> (False, m)
      | Some s \<Rightarrow>
          (case peeked of (result, errno) \<Rightarrow>
             let m' = (if result = 0 then m\<lparr>connected := False\<rparr>
                       else if result < 0 \<and> (errno \<noteq> EAGAIN \<and> errno \<noteq> EWOULDBLOCK)
                       then m\<lparr>connected := False\<rparr>
                       else m)
             in (connected m', m')))"

text \<open>\<^verbatim>\<open>pollSocket\<close>, with the return value of \<^verbatim>\<open>poll\<close>.\<close>

definition pollSocket :: "ConnectionManager \<Rightarrow> int \<Rightarrow> bool" where
  "pollSocket m poll_ret = (case socket m of None \<Rightarrow> False | Some s \<Rightarrow> \<not> poll_ret \<le> 0)"

definition isReadable :: "ConnectionManager \<Rightarrow> int \<Rightarrow> bool" where
  "isReadable m poll_ret = pollSocket m poll_ret"

definition disconnect :: "ConnectionManager \<Rightarrow> ConnectionManager" where
  "disconnect m = m\<lparr>socket := None, connected := False\<rparr>"

text \<open>
  \<^verbatim>\<open>ConnectionManager::connect\<close>. Only the call of \<^verbatim>\<open>Socket::connect\<close> is inside the
  \<^verbatim>\<open>try\<close> block, whose handler takes \<^verbatim>\<open>std::runtime_error\<close>; the constructor of the
  socket and \<^verbatim>\<open>std::stoi\<close> on the port run before it. The result is the exception or the
  value returned, with the manager afterwards.
\<close>

definition ConnectionManager_connect ::
  "ConnectionManager \<Rightarrow> string \<Rightarrow> string \<Rightarrow> connect_world
     \<Rightarrow> ((exn + bool) \<times> ConnectionManager) option" where
  "ConnectionManager_connect m ip port w =
     (if ip = [] \<or> port = [] then Some (Inr False, m)
      else
        let m1 = (if socket m \<noteq> None then disconnect m else m) in
        (case Socket_create w of
           Inl e \<Rightarrow> Some (Inl e, m1)
         | Inr s \<Rightarrow>
             let m2 = m1\<lparr>socket := Some s\<rparr> in
             (case stoi port 10 of
                Inl e \<Rightarrow> Some (Inl e, m2)
              | Inr sin_port \<Rightarrow>
                  if inet_pton_ret w \<le> 0 then Some (Inr False, m2)
                  else
                    (case Socket_connect s w TIMEOUT_MS of
                       None \<Rightarrow> None
                     | Some (Inr u, s') \<Rightarrow> Some (Inr True, m2\<lparr>socket := Some s', connected := True\<rparr>)
                     | Some (Inl e, s') \<Rightarrow>
                         if is_runtime_error e then Some (Inr False, m2\<lparr>socket := Some s'\<rparr>)
                         else Some (Inl e, m2\<lparr>socket := Some s'\<rparr>)))))"

text \<open>
  \<^verbatim>\<open>ConnectionManager::send\<close>: the \<^verbatim>\<open>ssize_t\<close> that \<^verbatim>\<open>Socket::send\<close> returns is
  converted to \<^verbatim>\<open>bool\<close>; an exception of \<^verbatim>\<open>Socket::send\<close> passes through.
\<close>

definition ConnectionManager_send ::
  "ConnectionManager \<Rightarrow> string \<Rightarrow> send_result list \<Rightarrow> (exn + bool) option" where
  "ConnectionManager_send m data answers =
     (case socket m of
        None \<Rightarrow> Some (Inr False)
      | Some s \<Rightarrow>
          (case Socket_send data answers of
             None \<Rightarrow> None
           | Some (Inl e, wire) \<Rightarrow> Some (Inl e)
           | Some (Inr n, wire) \<Rightarrow> Some (Inr (n \<noteq> 0))))"

subsection \<open>Receiving a framed response\<close>

text \<open>\<^verbatim>\<open>std::getline\<close> until the stream ends: the lines between line feeds.\<close>

fun getlines :: "string \<Rightarrow> string \<Rightarrow> string list" where
  "getlines cur [] = (if cur = [] then [] else [rev cur])"
| "getlines cur (c # s) =
     (if c = CHR 0x0A then rev cur # getlines [] s else getlines (c # cur) s)"

text \<open>
  \<^verbatim>\<open>parseHeaderValue\<close>: the first line that starts with the key and a colon
  (\<^verbatim>\<open>line.compare(0, prefix.size(), prefix) == 0\<close>, which compares characters exactly),
  without the prefix and trimmed.
\<close>

fun first_with_prefix :: "string \<Rightarrow> string list \<Rightarrow> string option" where
  "first_with_prefix prefix [] = None"
| "first_with_prefix prefix (line # lines) =
     (if take (length prefix) line = prefix then Some (trim (substr_from line (length prefix)))
      else first_with_prefix prefix lines)"

definition parseHeaderValue :: "string \<Rightarrow> string \<Rightarrow> string option" where
  "parseHeaderValue hdrs key = first_with_prefix (key @ '':'') (getlines [] hdrs)"

text \<open>
  One turn of a read loop meets the return value of \<^verbatim>\<open>poll\<close> and, when the socket is
  readable, what \<^verbatim>\<open>::recv\<close> meets.
\<close>

type_synonym read_answer = "int \<times> recv_result"

text \<open>
  The first loop of \<^verbatim>\<open>receive\<close>: read until the data holds the header delimiter.
  \<open>Inr None\<close> is the return of \<^verbatim>\<open>std::nullopt\<close>; otherwise the data and the answers
  not yet used. \<open>None\<close> when the answers run out before the delimiter is there.
\<close>

fun read_headers ::
  "ConnectionManager \<Rightarrow> string \<Rightarrow> read_answer list
     \<Rightarrow> (exn + (string \<times> read_answer list) option) option" where
  "read_headers m data [] =
     (if find_str (CRLF @ CRLF) data = None then None else Some (Inr (Some (data, []))))"
| "read_headers m data ((poll_ret, r) # rest) =
     (if find_str (CRLF @ CRLF) data = None then
        (if \<not> isReadable m poll_ret then Some (Inr None)
         else
           (case Socket_recv r BUFFER_SIZE of
              Inl e \<Rightarrow> Some (Inl e)
            | Inr (bytesRead, buf) \<Rightarrow>
                if bytesRead \<le> 0 then Some (Inr None)
                else read_headers m (data @ buf) rest))
      else Some (Inr (Some (data, (poll_ret, r) # rest))))"

text \<open>
  The second loop of \<^verbatim>\<open>receive\<close>: read while the body is shorter than the content
  length. A socket that is not readable returns \<^verbatim>\<open>std::nullopt\<close>; a read that returns
  nothing leaves the loop with the body read so far.
\<close>

fun read_body ::
  "ConnectionManager \<Rightarrow> int \<Rightarrow> string \<Rightarrow> read_answer list \<Rightarrow> (exn + string option) option" where
  "read_body m contentLength bodyStr [] =
     (if 0 < contentLength \<and> int (length bodyStr) < contentLength then None
      else Some (Inr (Some bodyStr)))"
| "read_body m contentLength bodyStr ((poll_ret, r) # rest) =
     (if 0 < contentLength \<and> int (length bodyStr) < contentLength then
        (if \<not> isReadable m poll_ret then Some (Inr None)
         else
           (case Socket_recv r BUFFER_SIZE of
              Inl e \<Rightarrow> Some (Inl e)
            | Inr (bytesRead, buf) \<Rightarrow>
                if bytesRead \<le> 0 then Some (Inr (Some bodyStr))
                else read_body m contentLength (bodyStr @ buf) rest))
      else Some (Inr (Some bodyStr)))"

text \<open>
  The content length that \<^verbatim>\<open>receive\<close> takes from the header block: the key is looked
  up in lower case; \<^verbatim>\<open>std::invalid_argument\<close> gives 0, \<^verbatim>\<open>std::out_of_range\<close> is not
  caught.
\<close>

definition declared_length :: "string \<Rightarrow> exn + int" where
  "declared_length headersStr =
     (case parseHeaderValue headersStr (toLower ''Content-Length'') of
        None \<Rightarrow> Inr 0
      | Some contentLengthStr \<Rightarrow>
          (case stoul contentLengthStr of
             Inr n \<Rightarrow> Inr n
           | Inl (Invalid_argument x) \<Rightarrow> Inr 0
           | Inl e \<Rightarrow> Inl e))"

text \<open>
  A turn of the second loop that reads something: the socket is readable and
  \<^verbatim>\<open>::recv\<close> returns at least one byte. \<open>received\<close> are the bytes of a turn.
\<close>

definition received :: "read_answer \<Rightarrow> string" where
  "received a = snd (os_recv (snd a) BUFFER_SIZE)"

definition good_read :: "read_answer \<Rightarrow> bool" where
  "good_read a = (0 < fst a \<and> 0 < fst (os_recv (snd a) BUFFER_SIZE))"

definition receive :: "ConnectionManager \<Rightarrow> read_answer list \<Rightarrow> (exn + string option) option" where
  "receive m answers =
     (case socket m of
        None \<Rightarrow> Some (Inr None)
      | Some s \<Rightarrow>
          (case read_headers m [] answers of
             None \<Rightarrow> None
           | Some (Inl e) \<Rightarrow> Some (Inl e)
           | Some (Inr None) \<Rightarrow> Some (Inr None)
           | Some (Inr (Some (data, rest))) \<Rightarrow>
               (case find_str (CRLF @ CRLF) data of
                  None \<Rightarrow> None
                | Some headerEnd \<Rightarrow>
                    let headersStr = substr data 0 headerEnd;
                        bodyStr = substr_from data (headerEnd + 4)
                    in (case declared_length headersStr of
                          Inl e \<Rightarrow> Some (Inl e)
                        | Inr contentLength \<Rightarrow>
                            (case read_body m contentLength bodyStr rest of
                               None \<Rightarrow> None
                             | Some (Inl e) \<Rightarrow> Some (Inl e)
                             | Some (Inr None) \<Rightarrow> Some (Inr None)
                             | Some (Inr (Some bodyStr')) \<Rightarrow>
                                 Some (Inr (Some (headersStr @ CRLF @ CRLF @ bodyStr'))))))))"

section \<open>The client (\<^verbatim>\<open>HttpClient\<close>)\<close>

definition getStatusLine_request :: "HttpRequest \<Rightarrow> string" where
  "getStatusLine_request req = methodStr req @ '' '' @ uri req @ '' '' @ version req"

definition serializeRequest :: "HttpRequest \<Rightarrow> string" where
  "serializeRequest req =
     getStatusLine_request req @ CRLF
       @ concat (map (\<lambda>(key, val). key @ '': '' @ val @ CRLF) (headers req))
       @ CRLF
       @ (if body req \<noteq> [] then body req else [])"

definition parseResponse :: "string \<Rightarrow> exn + HttpResponse" where
  "parseResponse responseData =
     (case parse HttpResponse_init responseData of
        (False, response) \<Rightarrow> Inl (Runtime_error (Msg ''Failed to parse HTTP response.''))
      | (True, response) \<Rightarrow> Inr response)"

text \<open>
  What \<^verbatim>\<open>processRequest\<close> itself writes to the log or displays, in order. A log text is
  a string, or a fixed text followed by \<^verbatim>\<open>what()\<close> of an exception. (The log calls inside
  the socket and the manager are left out.)
\<close>

datatype LogLevel = DEBUG | INFO | WARN | ERROR

datatype event =
    Log string LogLevel
  | Log_what string exn LogLevel
  | Display_request HttpRequest
  | Display_response HttpResponse

text \<open>What the operating system answers during one \<^verbatim>\<open>processRequest\<close>.\<close>

record request_world =
  peek :: "int \<times> int"
  conn :: connect_world
  sends :: "send_result list"
  reads :: "read_answer list"

text \<open>
  The statements of \<^verbatim>\<open>processRequest\<close> after the connection is there: serialize, send,
  receive, parse, and disconnect when the response is not keep-alive.
\<close>

definition exchange ::
  "ConnectionManager \<Rightarrow> HttpRequest \<Rightarrow> string \<Rightarrow> string \<Rightarrow> request_world
     \<Rightarrow> ((exn + unit) \<times> ConnectionManager \<times> event list) option" where
  "exchange m request ip port w =
     (let log1 = [Log (''Connected to '' @ ip @ '':'' @ port) INFO];
          requestData = serializeRequest request;
          log2 = log1 @ [Log ''Serialized request.'' DEBUG]
      in case ConnectionManager_send m requestData (sends w) of
           None \<Rightarrow> None
         | Some (Inl e) \<Rightarrow> Some (Inl e, m, log2)
         | Some (Inr False) \<Rightarrow>
             Some (Inr (), m,
               log2 @ [Log (''Failed to send request to '' @ ip @ '':'' @ port) ERROR])
         | Some (Inr True) \<Rightarrow>
             let log3 = log2 @ [Display_request request] in
             (case receive m (reads w) of
                None \<Rightarrow> None
              | Some (Inl e) \<Rightarrow> Some (Inl e, m, log3)
              | Some (Inr None) \<Rightarrow>
                  Some (Inr (), m,
                    log3 @ [Log (''Failed to receive response from '' @ ip @ '':'' @ port) ERROR])
              | Some (Inr (Some responseData)) \<Rightarrow>
                  let log4 = log3 @ [Log ''Raw response received. Parsing....'' DEBUG] in
                  (case parseResponse responseData of
                     Inl e \<Rightarrow> Some (Inl e, m, log4)
                   | Inr response \<Rightarrow>
                       let log5 = log4 @ [Display_response response] in
                       if \<not> isKeepAlive response
                       then Some (Inr (), disconnect m,
                              log5 @ [Log ''Connection not kept alive. Disconnecting.'' INFO])
                       else Some (Inr (), m, log5))))"

text \<open>The body of the \<^verbatim>\<open>try\<close> block of \<^verbatim>\<open>processRequest\<close>.\<close>

definition processRequest_try ::
  "ConnectionManager \<Rightarrow> HttpRequest \<Rightarrow> string \<Rightarrow> string \<Rightarrow> request_world
     \<Rightarrow> ((exn + unit) \<times> ConnectionManager \<times> event list) option" where
  "processRequest_try m request ip port w =
     (case isConnected m (peek w) of
        (True, m1) \<Rightarrow> exchange m1 request ip port w
      | (False, m1) \<Rightarrow>
          (case ConnectionManager_connect m1 ip port (conn w) of
             None \<Rightarrow> None
           | Some (Inl e, m2) \<Rightarrow> Some (Inl e, m2, [])
           | Some (Inr False, m2) \<Rightarrow>
               Some (Inr (), m2, [Log (''Failed to connect to '' @ ip @ '':'' @ port) ERROR])
           | Some (Inr True, m2) \<Rightarrow> exchange m2 request ip port w))"

text \<open>
  \<^verbatim>\<open>processRequest\<close>: the handler \<^verbatim>\<open>catch(const std::exception&)\<close> logs the exception
  and the function returns; an exception of another kind would leave the function.
\<close>

definition processRequest ::
  "ConnectionManager \<Rightarrow> HttpRequest \<Rightarrow> string \<Rightarrow> string \<Rightarrow> request_world
     \<Rightarrow> ((exn + unit) \<times> ConnectionManager \<times> event list) option" where
  "processRequest m request ip port w =
     (case processRequest_try m request ip port w of
        None \<Rightarrow> None
      | Some (Inr u, m', log) \<Rightarrow> Some (Inr (), m', log)
      | Some (Inl e, m', log) \<Rightarrow>
          if is_std_exception e
          then Some (Inr (), m', log @ [Log_what ''Failed to process request: '' e ERROR])
          else Some (Inl e, m', log))"

text \<open>
  The first statement of \<^verbatim>\<open>processRequest\<close> leaves a connected manager \<open>m1\<close>: either
  \<^verbatim>\<open>isConnected\<close> is true, or it is false and \<^verbatim>\<open>connect\<close> returns true.
\<close>

definition connection_ready ::
  "ConnectionManager \<Rightarrow> string \<Rightarrow> string \<Rightarrow> request_world \<Rightarrow> ConnectionManager \<Rightarrow> bool" where
  "connection_ready m ip port w m1 =
     (case isConnected m (peek w) of
        (True, m0) \<Rightarrow> m1 = m0
      | (False, m0) \<Rightarrow> ConnectionManager_connect m0 ip port (conn w) = Some (Inr True, m1))"

section \<open>Example inputs\<close>

definition example_socket :: Socket where
  "example_socket = \<lparr>socket_fd = 3, status_flags = O_RDWR\<rparr>"

text \<open>
  A connection attempt that stays in progress: the first \<^verbatim>\<open>poll\<close> is interrupted, the
  second reports no event.
\<close>

definition example_world :: connect_world where
  "example_world =
     \<lparr>socket_ret = 3, socket_errno = 0, setsockopt_ret = 0, setsockopt_errno = 0,
      inet_pton_ret = 1, getfl_ret = 2, setfl_ret = 0,
      connect_ret = - 1, connect_errno = EINPROGRESS,
      poll_rets = [(- 1, EINTR), (0, 0)],
      getsockopt_ret = 0, getsockopt_errno = 0, so_error = 0\<rparr>"

definition example_manager :: ConnectionManager where
  "example_manager = \<lparr>socket = Some example_socket, connected = True\<rparr>"

text \<open>A response of two body bytes that announces ten, in one read.\<close>

definition example_partial :: string where
  "example_partial =
     ''HTTP/1.1 200 OK'' @ CRLF @ ''content-length: 10'' @ CRLF @ CRLF @ ''hi''"

text \<open>
  A request on a connected manager: the peek would block, the request is written in one
  call and the response, which asks to close the connection, arrives in one read.
\<close>

definition example_request :: HttpRequest where
  "example_request =
     \<lparr>version = ''HTTP/1.1'', headers = [(''host'', ''127.0.0.1:60001'')], body = [],
      methodStr = ''GET'', uri = ''/''\<rparr>"

definition example_request_world :: request_world where
  "example_request_world =
     \<lparr>peek = (- 1, EAGAIN), conn = example_world, sends = [Send_takes 100],
      reads = [(1, Recv_gets (''HTTP/1.1 200 OK'' @ CRLF @ ''Connection: close'' @ CRLF @ CRLF))]\<rparr>"

definition example_response :: HttpResponse where
  "example_response =
     \<lparr>version = ''HTTP/1.1'', headers = [(''connection'', ''close'')], body = [],
      status = 200, keepAlive = False\<rparr>"
section \<open>Properties of percent-encoding\<close>

lemma decode_plain: "c \<noteq> CHR ''%'' \<Longrightarrow> decode (c # s) = c # decode s"
proof (cases s)
  case Nil
  then show ?thesis by simp
next
  case (Cons a t)
  assume "c \<noteq> CHR ''%''"
  then show ?thesis using Cons by (cases t) simp_all
qed

lemma all_entries_ok: "list_all entry_ok ENCODING_MAP"
  by code_simp

lemma enc_entry:
  assumes "(c, s) \<in> set ENCODING_MAP"
  shows "\<exists>h1 h2. s = [CHR ''%'', h1, h2] \<and> stoi [h1, h2] 16 = Inr (of_char c)"
proof -
  from all_entries_ok assms have "entry_ok (c, s)"
    by (simp add: list_all_iff)
  then show ?thesis
    by (auto simp: entry_ok_def split: list.splits)
qed

lemma unmapped_not_percent: "map_of ENCODING_MAP c = None \<Longrightarrow> c \<noteq> CHR ''%''"
  by (auto simp: ENCODING_MAP_def)

lemma decode_encode_char: "decode (encode_char c @ s) = c # decode s"
proof (cases "map_of ENCODING_MAP c")
  case None
  then show ?thesis
    using unmapped_not_percent[OF None] by (simp add: encode_char_def decode_plain)
next
  case (Some e)
  then have "(c, e) \<in> set ENCODING_MAP"
    by (rule map_of_SomeD)
  from enc_entry[OF this] obtain h1 h2
    where "e = [CHR ''%'', h1, h2]" and "stoi [h1, h2] 16 = Inr (of_char c)"
    by blast
  then show ?thesis
    using Some by (simp add: encode_char_def)
qed

text \<open>
  Claim C10. Decoding the percent-encoding of any string gives the string back:
  every character of the table (the percent sign among them) becomes a triple that
  \<open>decode\<close> turns back into the character, and every other character is copied by
  both functions.
\<close>

theorem decode_encode_identity: "decode (encode s) = s"
  by (induction s) (simp_all add: decode_encode_char)

section \<open>Header access\<close>

lemma tolower_same_letter: "same_letter a b \<Longrightarrow> tolower a = tolower b"
proof -
  assume h: "same_letter a b"
  have ab: "char_of (of_char a :: nat) = a" "char_of (of_char b :: nat) = b" by simp_all
  from h consider "a = b"
    | "65 \<le> (of_char a :: nat)" "(of_char a :: nat) \<le> 90" "(of_char b :: nat) = of_char a + 32"
    | "65 \<le> (of_char b :: nat)" "(of_char b :: nat) \<le> 90" "(of_char a :: nat) = of_char b + 32"
    by (auto simp: same_letter_def Let_def)
  then show ?thesis
  proof cases
    case 1 then show ?thesis by simp
  next
    case 2
    then have "tolower a = char_of ((of_char b :: nat))" by (simp add: tolower_def)
    moreover from 2 have "tolower b = b" by (simp add: tolower_def)
    ultimately show ?thesis by simp
  next
    case 3
    then have "tolower b = char_of ((of_char a :: nat))" by (simp add: tolower_def)
    moreover from 3 have "tolower a = a" by (simp add: tolower_def)
    ultimately show ?thesis by simp
  qed
qed

lemma of_char_tolower_upper:
  assumes "65 \<le> (of_char c :: nat)" "(of_char c :: nat) \<le> 90"
  shows "(of_char (tolower c) :: nat) = of_char c + 32"
proof -
  from assms have "(of_char (tolower c) :: nat) = (of_char c + 32) mod 256"
    by (simp add: tolower_def)
  with assms show ?thesis by simp
qed

lemma tolower_not_upper:
  "\<not> (65 \<le> (of_char c :: nat) \<and> (of_char c :: nat) \<le> 90) \<Longrightarrow> tolower c = c"
  unfolding tolower_def by (rule if_not_P)

lemma same_letter_tolower: "same_letter (tolower c) c"
proof (cases "65 \<le> (of_char c :: nat) \<and> (of_char c :: nat) \<le> 90")
  case True
  with of_char_tolower_upper[of c] show ?thesis
    by (simp add: same_letter_def Let_def)
next
  case False
  then have "tolower c = c" by (rule tolower_not_upper)
  then show ?thesis by (simp add: same_letter_def)
qed

lemma tolower_eq_same_letter:
  assumes "tolower a = tolower b"
  shows "same_letter a b"
proof -
  let ?ua = "65 \<le> (of_char a :: nat) \<and> (of_char a :: nat) \<le> 90"
  let ?ub = "65 \<le> (of_char b :: nat) \<and> (of_char b :: nat) \<le> 90"
  show ?thesis
  proof (cases ?ua)
    case ua: True
    then have xa: "(of_char (tolower a) :: nat) = of_char a + 32"
      using of_char_tolower_upper[of a] by simp
    show ?thesis
    proof (cases ?ub)
      case True
      then have "(of_char (tolower b) :: nat) = of_char b + 32"
        using of_char_tolower_upper[of b] by simp
      with xa assms have "(of_char a :: nat) = of_char b" by simp
      then have "a = b" by simp
      then show ?thesis by (simp add: same_letter_def)
    next
      case False
      then have "tolower b = b" by (rule tolower_not_upper)
      with xa assms have "(of_char b :: nat) = of_char a + 32" by simp
      with ua show ?thesis by (simp add: same_letter_def Let_def)
    qed
  next
    case nua: False
    then have ta: "tolower a = a" by (rule tolower_not_upper)
    show ?thesis
    proof (cases ?ub)
      case True
      then have "(of_char (tolower b) :: nat) = of_char b + 32"
        using of_char_tolower_upper[of b] by simp
      with ta assms have "(of_char a :: nat) = of_char b + 32" by simp
      with True show ?thesis by (simp add: same_letter_def Let_def)
    next
      case False
      then have "tolower b = b" by (rule tolower_not_upper)
      with ta assms show ?thesis by (simp add: same_letter_def)
    qed
  qed
qed

lemma toLower_differ_only_in_case: "differ_only_in_case k1 k2 \<Longrightarrow> toLower k1 = toLower k2"
  unfolding differ_only_in_case_def toLower_def
  by (induction k1 k2 rule: list_all2_induct) (simp_all add: tolower_same_letter)

lemma differ_only_in_case_iff: "differ_only_in_case k1 k2 \<longleftrightarrow> toLower k1 = toLower k2"
proof
  assume "differ_only_in_case k1 k2"
  then show "toLower k1 = toLower k2" by (rule toLower_differ_only_in_case)
next
  assume "toLower k1 = toLower k2"
  then show "differ_only_in_case k1 k2"
    unfolding differ_only_in_case_def toLower_def
  proof (induction k1 arbitrary: k2)
    case Nil
    then show ?case by simp
  next
    case (Cons a k1)
    then obtain b k2' where k2: "k2 = b # k2'" by (cases k2) auto
    with Cons show ?case by (simp add: tolower_eq_same_letter)
  qed
qed

lemma differ_only_in_case_toLower: "differ_only_in_case (toLower k) k"
  unfolding differ_only_in_case_def toLower_def
  by (induction k) (simp_all add: same_letter_tolower)

lemma of_char_tolower_range: "\<not> (65 \<le> (of_char (tolower c) :: nat) \<and> (of_char (tolower c) :: nat) \<le> 90)"
proof (cases "65 \<le> (of_char c :: nat) \<and> (of_char c :: nat) \<le> 90")
  case True
  with of_char_tolower_upper[of c] show ?thesis by auto
next
  case False
  then show ?thesis by (simp add: tolower_def)
qed

lemma no_upper_toLower: "no_upper (toLower k)"
  unfolding no_upper_def toLower_def
  by (induction k) (simp_all add: of_char_tolower_range[simplified])

lemma toLower_no_upper: "no_upper k \<Longrightarrow> toLower k = k"
  unfolding no_upper_def toLower_def
  by (induction k) (auto simp: tolower_def)

lemma toLower_idem: "toLower (toLower k) = toLower k"
  by (rule toLower_no_upper) (rule no_upper_toLower)

lemma getHeader_setHeader:
  "getHeader (setHeader m k v) k' = (if toLower k' = toLower k then Some v else getHeader m k')"
  by (simp add: getHeader_def setHeader_def update_conv')

lemma keys_normalized_update:
  "keys_normalized hs \<Longrightarrow> keys_normalized (AList.update (toLower k) v hs)"
  by (auto simp: keys_normalized_def distinct_update update_keys list_all_iff no_upper_toLower)

lemma filter_key_distinct:
  "distinct (map fst al) \<Longrightarrow> map_of al k = Some v \<Longrightarrow> filter (\<lambda>kv. fst kv = k) al = [(k, v)]"
proof (induction al)
  case Nil then show ?case by simp
next
  case (Cons a al)
  show ?case
  proof (cases "fst a = k")
    case True
    with Cons.prems have "a = (k, v)" by (cases a) simp
    moreover have "filter (\<lambda>kv. fst kv = k) al = []"
    proof -
      from Cons.prems True have "k \<notin> fst ` set al" by simp
      then have "\<forall>kv \<in> set al. fst kv \<noteq> k" by force
      then show ?thesis by (simp add: filter_empty_conv)
    qed
    ultimately show ?thesis by simp
  next
    case False
    with Cons show ?thesis by (cases a) auto
  qed
qed

lemma filter_lower_key:
  assumes "keys_normalized al" "map_of al (toLower k) = Some v"
  shows "filter (\<lambda>kv. differ_only_in_case (fst kv) k) al = [(toLower k, v)]"
proof -
  have "filter (\<lambda>kv. differ_only_in_case (fst kv) k) al = filter (\<lambda>kv. fst kv = toLower k) al"
    using assms(1)
    by (intro filter_cong)
      (auto simp: keys_normalized_def list_all_iff differ_only_in_case_iff toLower_no_upper)
  then show ?thesis
    using assms by (simp add: filter_key_distinct keys_normalized_def)
qed

text \<open>
  Claim C5. Header access is case-insensitive and the last write wins: when \<open>k1\<close> and
  \<open>k2\<close> differ only in letter case, a value set under \<open>k1\<close> is read under \<open>k2\<close>;
  a key that differs from \<open>k1\<close> in more than letter case reads what it read before;
  after two writes under \<open>k1\<close> and then \<open>k2\<close> both keys read the second value, and
  the table has exactly one entry whose key equals \<open>k1\<close> up to letter case. That entry
  holds the second value under the key \<open>toLower k1\<close>, which is \<open>k1\<close> up to letter case
  and has no upper-case letter; the keys of the table stay pairwise different and free of
  upper-case letters.
\<close>

theorem header_access_case_insensitive_last_write_wins:
  assumes "differ_only_in_case k1 k2" and "keys_normalized (headers m)"
  shows "getHeader (setHeader m k1 v) k2 = Some v \<and>
     (\<not> differ_only_in_case k3 k1 \<longrightarrow> getHeader (setHeader m k1 v) k3 = getHeader m k3) \<and>
     (let m' = setHeader (setHeader m k1 v1) k2 v2 in
        getHeader m' k1 = Some v2 \<and> getHeader m' k2 = Some v2 \<and>
        keys_normalized (headers m') \<and>
        filter (\<lambda>kv. differ_only_in_case (fst kv) k1) (headers m') = [(toLower k1, v2)] \<and>
        differ_only_in_case (toLower k1) k1 \<and> no_upper (toLower k1))"
proof -
  have eq: "toLower k1 = toLower k2"
    using assms(1) by (rule toLower_differ_only_in_case)
  define m' where "m' = setHeader (setHeader m k1 v1) k2 v2"
  have kn: "keys_normalized (headers m')"
    using assms(2) by (simp add: m'_def setHeader_def keys_normalized_update)
  have g: "getHeader m' k1 = Some v2" "getHeader m' k2 = Some v2"
    by (simp_all add: m'_def getHeader_setHeader eq)
  from g(1) have "map_of (headers m') (toLower k1) = Some v2"
    by (simp add: getHeader_def)
  then have f: "filter (\<lambda>kv. differ_only_in_case (fst kv) k1) (headers m') = [(toLower k1, v2)]"
    using kn by (simp add: filter_lower_key)
  have r: "getHeader (setHeader m k1 v) k2 = Some v"
    by (simp add: getHeader_setHeader eq)
  have o: "\<not> differ_only_in_case k3 k1 \<longrightarrow> getHeader (setHeader m k1 v) k3 = getHeader m k3"
    by (simp add: getHeader_setHeader differ_only_in_case_iff)
  have l: "differ_only_in_case (toLower k1) k1" "no_upper (toLower k1)"
    by (rule differ_only_in_case_toLower, rule no_upper_toLower)
  from r o g kn f l show ?thesis
    unfolding Let_def m'_def by blast
qed

theorem header_access_witness:
  "differ_only_in_case ''Content-Type'' ''content-type'' \<and>
   keys_normalized (headers (setHeader HttpMessage_init ''Accept'' ''*/*'')) \<and>
   \<not> differ_only_in_case ''accept'' ''Content-Type'' \<and>
   toLower ''Content-Type'' = ''content-type'' \<and>
   getHeader (setHeader (setHeader HttpMessage_init ''Accept'' ''*/*'') ''Content-Type'' ''a'')
       ''content-type'' = Some ''a'' \<and>
   getHeader (setHeader (setHeader HttpMessage_init ''Accept'' ''*/*'') ''Content-Type'' ''a'')
       ''accept'' = Some ''*/*'' \<and>
   headers (setHeader (setHeader (setHeader HttpMessage_init ''Accept'' ''*/*'')
              ''Content-Type'' ''a'') ''content-type'' ''b'')
     = [(''accept'', ''*/*''), (''content-type'', ''b'')] \<and>
   (let m' = setHeader (setHeader (setHeader HttpMessage_init ''Accept'' ''*/*'')
               ''Content-Type'' ''a'') ''content-type'' ''b'' in
      getHeader m' ''Content-Type'' = Some ''b'' \<and> getHeader m' ''content-type'' = Some ''b'' \<and>
      keys_normalized (headers m') \<and>
      filter (\<lambda>kv. differ_only_in_case (fst kv) ''Content-Type'') (headers m')
        = [(''content-type'', ''b'')] \<and>
      differ_only_in_case ''content-type'' ''Content-Type'' \<and> no_upper ''content-type'')"
proof -
  have h1: "differ_only_in_case ''Content-Type'' ''content-type''"
    by code_simp
  have h2: "keys_normalized (headers (setHeader HttpMessage_init ''Accept'' ''*/*''))"
    by code_simp
  have h3: "toLower ''Content-Type'' = ''content-type''"
    by code_simp
  have h4: "headers (setHeader (setHeader (setHeader HttpMessage_init ''Accept'' ''*/*'')
              ''Content-Type'' ''a'') ''content-type'' ''b'')
     = [(''accept'', ''*/*''), (''content-type'', ''b'')]"
    by code_simp
  have h5: "\<not> differ_only_in_case ''accept'' ''Content-Type''"
    by code_simp
  have h6: "getHeader (setHeader HttpMessage_init ''Accept'' ''*/*'') ''accept'' = Some ''*/*''"
    by code_simp
  note t = header_access_case_insensitive_last_write_wins[OF h1 h2,
      where v = "''a''" and ?v1.0 = "''a''" and ?v2.0 = "''b''" and ?k3.0 = "''accept''"]
  have other: "getHeader (setHeader (setHeader HttpMessage_init ''Accept'' ''*/*'') ''Content-Type'' ''a'')
       ''accept'' = Some ''*/*''"
    using conjunct1[OF conjunct2[OF t]] h5 h6 by simp
  from t other h1 h2 h4 h5 show ?thesis
    unfolding h3 by blast
qed

section \<open>The keep-alive flag of a parsed response\<close>

lemma parseStartLine_keeps:
  "parseStartLine r l = (ok, r') \<Longrightarrow> headers r' = headers r \<and> keepAlive r' = keepAlive r"
  by (auto simp: parseStartLine_def Let_def split: option.splits if_splits)

lemma parseHeaderLine_keepAlive: "keepAlive (parseHeaderLine r h) = keepAlive r"
  by (simp add: parseHeaderLine_def setHeader_def split: option.splits)

lemma parseHeaders_from_keepAlive: "keepAlive (parseHeaders_from r b pos) = keepAlive r"
proof (induction r b pos rule: parseHeaders_from.induct)
  case (1 r b pos)
  show ?case
  proof (cases "pos < length b")
    case True
    with 1 show ?thesis
      by (subst parseHeaders_from.simps) (simp add: parseHeaderLine_keepAlive)
  next
    case False
    then show ?thesis by (subst parseHeaders_from.simps) simp
  qed
qed

lemma parseBody_keeps:
  "parseBody r raw bs = (ok, r') \<Longrightarrow> headers r' = headers r \<and> keepAlive r' = keepAlive r"
  by (auto simp: parseBody_def setBody_def split: option.splits if_splits sum.splits)

lemma determineKeepAlive_flag:
  "keepAlive (determineKeepAlive r) =
     (case getHeader r ''Connection'' of
        None \<Rightarrow> keepAlive r
      | Some v \<Rightarrow> toLower (trim v) = ''keep-alive'')"
  by (simp add: determineKeepAlive_def split: option.splits)

lemma determineKeepAlive_headers: "headers (determineKeepAlive r) = headers r"
  by (simp add: determineKeepAlive_def split: option.splits)

text \<open>
  Claim C4, as the specification states it, fails: a response without a
  \<^verbatim>\<open>Connection\<close> header, parsed by a newly constructed \<^verbatim>\<open>HttpResponse\<close>, is
  keep-alive, because the constructor sets the flag and \<open>determineKeepAlive\<close> only
  assigns it when the header is there.
\<close>

theorem keepAlive_without_connection_header_counterexample:
  "parse HttpResponse_init (''HTTP/1.1 200 OK'' @ CRLF @ ''Content-Length: 0'' @ CRLF @ CRLF)
     = (True, HttpResponse_init\<lparr>headers := [(''content-length'', ''0'')]\<rparr>) \<and>
   getHeader (HttpResponse_init\<lparr>headers := [(''content-length'', ''0'')]\<rparr>) ''Connection'' = None \<and>
   isKeepAlive (HttpResponse_init\<lparr>headers := [(''content-length'', ''0'')]\<rparr>) = True"
  by code_simp

text \<open>
  Claim C4, amended. After a successful parse, when a \<^verbatim>\<open>Connection\<close> header is present
  the flag is true exactly when its value, trimmed of surrounding white space and put in
  lower case, is \<^verbatim>\<open>keep-alive\<close>; when the header is absent the flag keeps the value it
  had before the parse, which is true for a newly constructed response.
\<close>

theorem keepAlive_of_parsed_response:
  assumes "parse r0 rawData = (True, r)"
  shows "isKeepAlive r =
           (case getHeader r ''Connection'' of
              None \<Rightarrow> isKeepAlive r0
            | Some v \<Rightarrow> toLower (trim v) = ''keep-alive'') \<and>
         isKeepAlive HttpResponse_init = True"
proof -
  from assms obtain startLineEnd r1 headersEnd where
    sl: "parseStartLine r0 (substr rawData 0 startLineEnd) = (True, r1)" and
    pb: "parseBody (determineKeepAlive (parseHeaders r1
           (substr rawData (startLineEnd + 2) (headersEnd - (startLineEnd + 2)))))
           rawData (headersEnd + 4) = (True, r)"
    by (auto simp: parse_def Let_def split: option.splits prod.splits bool.splits)
  define r2 where
    "r2 = parseHeaders r1 (substr rawData (startLineEnd + 2) (headersEnd - (startLineEnd + 2)))"
  from pb have k: "headers r = headers (determineKeepAlive r2)"
      "keepAlive r = keepAlive (determineKeepAlive r2)"
    using parseBody_keeps[of "determineKeepAlive r2" rawData "headersEnd + 4" True r]
    by (simp_all add: r2_def)
  have "keepAlive r2 = keepAlive r0"
    using parseStartLine_keeps[OF sl]
    by (simp add: r2_def parseHeaders_def parseHeaders_from_keepAlive)
  moreover have "getHeader r ''Connection'' = getHeader r2 ''Connection''"
    using k(1) by (simp add: getHeader_def determineKeepAlive_headers)
  moreover have "isKeepAlive HttpResponse_init = True"
    by (simp add: isKeepAlive_def HttpResponse_init_def)
  ultimately show ?thesis
    using k(2) by (simp add: isKeepAlive_def determineKeepAlive_flag split: option.splits)
qed

theorem keepAlive_of_parsed_response_witness:
  "parse HttpResponse_init (''HTTP/1.1 200 OK'' @ CRLF @ ''Connection: Keep-Alive '' @ CRLF @ CRLF)
     = (True, HttpResponse_init\<lparr>headers := [(''connection'', ''Keep-Alive '')]\<rparr>) \<and>
   isKeepAlive (HttpResponse_init\<lparr>headers := [(''connection'', ''Keep-Alive '')]\<rparr>) =
     (case getHeader (HttpResponse_init\<lparr>headers := [(''connection'', ''Keep-Alive '')]\<rparr>)
             ''Connection'' of
        None \<Rightarrow> isKeepAlive HttpResponse_init
      | Some v \<Rightarrow> toLower (trim v) = ''keep-alive'')"
proof -
  have h: "parse HttpResponse_init
      (''HTTP/1.1 200 OK'' @ CRLF @ ''Connection: Keep-Alive '' @ CRLF @ CRLF)
     = (True, HttpResponse_init\<lparr>headers := [(''connection'', ''Keep-Alive '')]\<rparr>)"
    by code_simp
  from keepAlive_of_parsed_response[OF h] h show ?thesis
    by blast
qed

section \<open>Receiving on the socket\<close>

text \<open>
  Claim C2, as the specification states it, fails: when the read would block,
  \<^verbatim>\<open>Socket::recv\<close> returns the \<open>-1\<close> of the underlying call, not 0.
\<close>

theorem Socket_recv_would_block_counterexample:
  "Socket_recv (Recv_fails EAGAIN) 1 = Inr (- 1, []) \<and> (- 1 :: int) \<noteq> 0"
  by (simp add: Socket_recv_def)

text \<open>
  Claim C2, amended. When the underlying read reports a would-block condition,
  \<^verbatim>\<open>Socket::recv\<close> raises nothing and returns the negative result \<open>-1\<close> of the call
  unchanged; any other error raises \<^verbatim>\<open>std::system_error\<close> with the error number; a
  read without error returns the number of bytes read, and 0 then means that the peer
  has closed the connection.
\<close>

theorem Socket_recv_outcomes:
  "(would_block e \<longrightarrow> Socket_recv (Recv_fails e) len = Inr (- 1, [])) \<and>
   (\<not> would_block e \<longrightarrow>
      Socket_recv (Recv_fails e) len = Inl (System_error e ''Failed to receive data'')) \<and>
   Socket_recv (Recv_gets bytes) len
     = Inr (int (length (take_bytes len bytes)), take_bytes len bytes) \<and>
   Socket_recv (Recv_gets []) len = Inr (0, [])"
  by (simp add: Socket_recv_def would_block_def)

theorem Socket_recv_outcomes_witness:
  "would_block EAGAIN \<and> Socket_recv (Recv_fails EAGAIN) 10 = Inr (- 1, []) \<and>
   \<not> would_block 104 \<and>
   Socket_recv (Recv_fails 104) 10 = Inl (System_error 104 ''Failed to receive data'')"
proof -
  have h1: "would_block EAGAIN"
    by (simp add: would_block_def)
  have h2: "\<not> would_block 104"
    by (simp add: would_block_def EAGAIN_def EWOULDBLOCK_def)
  from Socket_recv_outcomes[of EAGAIN 10 "[]"] Socket_recv_outcomes[of 104 10 "[]"] h1 h2
  show ?thesis
    by blast
qed

section \<open>Sending on the socket\<close>


















section \<open>Connecting the socket\<close>

lemma poll_retry_interrupted:
  "list_all interrupted pre \<Longrightarrow> poll_retry (pre @ rest) = poll_retry rest"
  by (induction pre) (auto simp: interrupted_def)

lemma poll_retry_answer:
  "list_all interrupted pre \<Longrightarrow> \<not> interrupted (pr, pe) \<Longrightarrow>
     poll_retry (pre @ (pr, pe) # post) = Some (pr, pe)"
  by (simp add: poll_retry_interrupted) (auto simp: interrupted_def)

lemma or_nonblocking: "is_nonblocking (s\<lparr>status_flags := f OR O_NONBLOCK\<rparr>)"
proof -
  have "(f OR O_NONBLOCK) AND O_NONBLOCK = O_NONBLOCK"
    by (auto simp: bit_eq_iff bit_and_iff bit_or_iff)
  then show ?thesis
    by (simp add: is_nonblocking_def) (simp add: O_NONBLOCK_def)
qed

lemma setNonBlocking_ok:
  "0 \<le> getfl \<Longrightarrow> 0 \<le> setfl \<Longrightarrow>
     setNonBlocking s True getfl setfl = Inr (s\<lparr>status_flags := getfl OR O_NONBLOCK\<rparr>)"
  by (simp add: setNonBlocking_def Let_def)

text \<open>
  Claim C6. \<^verbatim>\<open>Socket::connect\<close> switches the socket to non-blocking first: when
  that fails the exception of \<open>setNonBlocking\<close> is the outcome, otherwise the socket is
  non-blocking from then on. A connect call that completes at once returns at once. A
  connect in progress is followed by the readiness poll, repeated while it is
  interrupted; the first other answer decides: 0 raises the timeout error, a negative
  value the poll error, and on readiness a pending socket error other than 0 raises the
  connect failure, else the call returns.
\<close>

theorem Socket_connect_outcomes:
  "(getfl_ret w < 0 \<longrightarrow>
      Socket_connect s w t = Some (Inl (Runtime_error (Msg ''Failed to get socket flags'')), s)) \<and>
   (0 \<le> getfl_ret w \<and> setfl_ret w < 0 \<longrightarrow>
      Socket_connect s w t
        = Some (Inl (Runtime_error (Msg ''Failed to set socket to non-blocking mode'')), s)) \<and>
   (0 \<le> getfl_ret w \<and> 0 \<le> setfl_ret w \<longrightarrow>
      (let s1 = s\<lparr>status_flags := getfl_ret w OR O_NONBLOCK\<rparr> in
         is_nonblocking s1 \<and>
         (connect_ret w = 0 \<longrightarrow> Socket_connect s w t = Some (Inr (), s1)) \<and>
         (connect_ret w \<noteq> 0 \<and> connect_errno w \<noteq> EINPROGRESS \<longrightarrow>
            Socket_connect s w t
              = Some (Inl (Runtime_error (Msg_strerror [] (connect_errno w))), s1)) \<and>
         (connect_ret w \<noteq> 0 \<and> connect_errno w = EINPROGRESS \<and>
          poll_rets w = pre @ (pr, pe) # post \<and> list_all interrupted pre \<and>
          \<not> interrupted (pr, pe) \<longrightarrow>
            (pr = 0 \<longrightarrow>
               Socket_connect s w t
                 = Some (Inl (Runtime_error (Msg ''Connection timed out'')), s1)) \<and>
            (pr < 0 \<longrightarrow>
               Socket_connect s w t
                 = Some (Inl (Runtime_error (Msg_strerror ''Poll error during connect: '' pe)), s1)) \<and>
            (0 < pr \<and> 0 \<le> getsockopt_ret w \<and> so_error w \<noteq> 0 \<longrightarrow>
               Socket_connect s w t
                 = Some (Inl (Runtime_error (Msg_strerror ''connect() failed: '' (so_error w))), s1)) \<and>
            (0 < pr \<and> 0 \<le> getsockopt_ret w \<and> so_error w = 0 \<longrightarrow>
               Socket_connect s w t = Some (Inr (), s1)))))"
proof -
  have a: "getfl_ret w < 0 \<longrightarrow>
      Socket_connect s w t = Some (Inl (Runtime_error (Msg ''Failed to get socket flags'')), s)"
    by (simp add: Socket_connect_def setNonBlocking_def Let_def)
  have b: "0 \<le> getfl_ret w \<and> setfl_ret w < 0 \<longrightarrow>
      Socket_connect s w t
        = Some (Inl (Runtime_error (Msg ''Failed to set socket to non-blocking mode'')), s)"
    by (simp add: Socket_connect_def setNonBlocking_def Let_def)
  have c: "0 \<le> getfl_ret w \<and> 0 \<le> setfl_ret w \<longrightarrow>
      (let s1 = s\<lparr>status_flags := getfl_ret w OR O_NONBLOCK\<rparr> in
         is_nonblocking s1 \<and>
         (connect_ret w = 0 \<longrightarrow> Socket_connect s w t = Some (Inr (), s1)) \<and>
         (connect_ret w \<noteq> 0 \<and> connect_errno w \<noteq> EINPROGRESS \<longrightarrow>
            Socket_connect s w t
              = Some (Inl (Runtime_error (Msg_strerror [] (connect_errno w))), s1)) \<and>
         (connect_ret w \<noteq> 0 \<and> connect_errno w = EINPROGRESS \<and>
          poll_rets w = pre @ (pr, pe) # post \<and> list_all interrupted pre \<and>
          \<not> interrupted (pr, pe) \<longrightarrow>
            (pr = 0 \<longrightarrow>
               Socket_connect s w t
                 = Some (Inl (Runtime_error (Msg ''Connection timed out'')), s1)) \<and>
            (pr < 0 \<longrightarrow>
               Socket_connect s w t
                 = Some (Inl (Runtime_error (Msg_strerror ''Poll error during connect: '' pe)), s1)) \<and>
            (0 < pr \<and> 0 \<le> getsockopt_ret w \<and> so_error w \<noteq> 0 \<longrightarrow>
               Socket_connect s w t
                 = Some (Inl (Runtime_error (Msg_strerror ''connect() failed: '' (so_error w))), s1)) \<and>
            (0 < pr \<and> 0 \<le> getsockopt_ret w \<and> so_error w = 0 \<longrightarrow>
               Socket_connect s w t = Some (Inr (), s1))))"
  proof (intro impI, elim conjE)
    assume ok: "0 \<le> getfl_ret w" "0 \<le> setfl_ret w"
    note nb = setNonBlocking_ok[OF ok, of s]
    show "let s1 = s\<lparr>status_flags := getfl_ret w OR O_NONBLOCK\<rparr> in
         is_nonblocking s1 \<and>
         (connect_ret w = 0 \<longrightarrow> Socket_connect s w t = Some (Inr (), s1)) \<and>
         (connect_ret w \<noteq> 0 \<and> connect_errno w \<noteq> EINPROGRESS \<longrightarrow>
            Socket_connect s w t
              = Some (Inl (Runtime_error (Msg_strerror [] (connect_errno w))), s1)) \<and>
         (connect_ret w \<noteq> 0 \<and> connect_errno w = EINPROGRESS \<and>
          poll_rets w = pre @ (pr, pe) # post \<and> list_all interrupted pre \<and>
          \<not> interrupted (pr, pe) \<longrightarrow>
            (pr = 0 \<longrightarrow>
               Socket_connect s w t
                 = Some (Inl (Runtime_error (Msg ''Connection timed out'')), s1)) \<and>
            (pr < 0 \<longrightarrow>
               Socket_connect s w t
                 = Some (Inl (Runtime_error (Msg_strerror ''Poll error during connect: '' pe)), s1)) \<and>
            (0 < pr \<and> 0 \<le> getsockopt_ret w \<and> so_error w \<noteq> 0 \<longrightarrow>
               Socket_connect s w t
                 = Some (Inl (Runtime_error (Msg_strerror ''connect() failed: '' (so_error w))), s1)) \<and>
            (0 < pr \<and> 0 \<le> getsockopt_ret w \<and> so_error w = 0 \<longrightarrow>
               Socket_connect s w t = Some (Inr (), s1)))"
      unfolding Let_def
    proof (intro conjI impI; (elim conjE)?)
      show "is_nonblocking (s\<lparr>status_flags := getfl_ret w OR O_NONBLOCK\<rparr>)"
        by (rule or_nonblocking)
    qed (simp_all add: Socket_connect_def nb poll_retry_answer)
  qed
  from a b c show ?thesis by blast
qed


theorem Socket_connect_witness:
  "0 \<le> getfl_ret example_world \<and> 0 \<le> setfl_ret example_world \<and>
   connect_ret example_world \<noteq> 0 \<and> connect_errno example_world = EINPROGRESS \<and>
   poll_rets example_world = [(- 1, EINTR)] @ (0, 0) # [] \<and>
   list_all interrupted [(- 1, EINTR)] \<and> \<not> interrupted (0, 0) \<and>
   is_nonblocking (example_socket\<lparr>status_flags := getfl_ret example_world OR O_NONBLOCK\<rparr>) \<and>
   Socket_connect example_socket example_world 5000
     = Some (Inl (Runtime_error (Msg ''Connection timed out'')),
             example_socket\<lparr>status_flags := getfl_ret example_world OR O_NONBLOCK\<rparr>)"
proof -
  have h: "0 \<le> getfl_ret example_world" "0 \<le> setfl_ret example_world"
      "connect_ret example_world \<noteq> 0" "connect_errno example_world = EINPROGRESS"
      "poll_rets example_world = [(- 1, EINTR)] @ (0, 0) # []"
      "list_all interrupted [(- 1, EINTR)]" "\<not> interrupted (0, 0)"
    by (simp_all add: example_world_def interrupted_def EINTR_def)
  from Socket_connect_outcomes[where w = example_world and s = example_socket and t = 5000
      and pre = "[(- 1, EINTR)]" and pr = 0 and pe = 0 and post = "[]"] h
  show ?thesis
    unfolding Let_def by blast
qed

section \<open>The connection manager\<close>

text \<open>
  Claim C8. \<^verbatim>\<open>isConnected\<close> returns false without a socket. With a socket, a peek
  that returns 0 or fails with an error other than would-block returns false and clears
  the connected flag; a peek that finds data or would block returns the flag as it was
  and leaves the manager unchanged.
\<close>

theorem isConnected_outcomes:
  "(socket m = None \<longrightarrow> isConnected m (result, errno) = (False, m)) \<and>
   (socket m \<noteq> None \<longrightarrow>
      (result = 0 \<or> (result < 0 \<and> \<not> would_block errno) \<longrightarrow>
         isConnected m (result, errno) = (False, m\<lparr>connected := False\<rparr>)) \<and>
      (0 < result \<or> (result < 0 \<and> would_block errno) \<longrightarrow>
         isConnected m (result, errno) = (connected m, m)))"
  by (auto simp: isConnected_def would_block_def Let_def)

theorem isConnected_witness:
  "socket example_manager \<noteq> None \<and>
   isConnected example_manager (0, 0) = (False, example_manager\<lparr>connected := False\<rparr>) \<and>
   would_block EAGAIN \<and>
   isConnected example_manager (- 1, EAGAIN) = (connected example_manager, example_manager) \<and>
   socket ConnectionManager_init = None \<and>
   isConnected ConnectionManager_init (1, 0) = (False, ConnectionManager_init)"
proof -
  have h: "socket example_manager \<noteq> None" "would_block EAGAIN" "socket ConnectionManager_init = None"
    by (simp_all add: example_manager_def would_block_def ConnectionManager_init_def)
  from isConnected_outcomes[of example_manager 0 0]
    isConnected_outcomes[of example_manager "- 1" EAGAIN]
    isConnected_outcomes[of ConnectionManager_init 1 0] h
  show ?thesis
    by simp
qed

lemma Socket_connect_raises_runtime_error:
  "Socket_connect s w t = Some (Inl e, s') \<Longrightarrow> is_runtime_error e"
  by (auto simp: Socket_connect_def setNonBlocking_def Let_def
      split: sum.splits if_splits option.splits prod.splits)

text \<open>
  The invariant of the manager holds at construction and is kept by every operation,
  so it holds whenever \<^verbatim>\<open>connect\<close> is called.
\<close>

lemma manager_inv_init: "manager_inv ConnectionManager_init"
  by (simp add: manager_inv_def ConnectionManager_init_def)

lemma manager_inv_disconnect: "manager_inv (disconnect m)"
  by (simp add: manager_inv_def disconnect_def)

lemma manager_inv_isConnected: "manager_inv m \<Longrightarrow> manager_inv (snd (isConnected m pk))"
  by (auto simp: manager_inv_def isConnected_def Let_def split: option.splits prod.splits)

lemma manager_inv_connect:
  "manager_inv m \<Longrightarrow> ConnectionManager_connect m ip port w = Some (out, m') \<Longrightarrow> manager_inv m'"
  by (cases m)
    (auto simp: ConnectionManager_connect_def Let_def disconnect_def manager_inv_def
       split: option.splits sum.splits prod.splits if_splits)

lemma isConnected_not_connected: "\<not> connected m \<Longrightarrow> fst (isConnected m pk) = False"
  by (auto simp: isConnected_def Let_def split: option.splits prod.splits)

text \<open>
  Claim C7, as the specification states it, fails: with an address that
  \<^verbatim>\<open>inet_pton\<close> rejects and a port that is not a number, \<^verbatim>\<open>std::stoi\<close> raises
  \<^verbatim>\<open>std::invalid_argument\<close> before the address is looked at, outside the \<^verbatim>\<open>try\<close>
  block, and the exception leaves \<^verbatim>\<open>connect\<close>.
\<close>

theorem ConnectionManager_connect_unparsable_counterexample:
  "ConnectionManager_connect ConnectionManager_init ''not-an-ip'' ''http''
     (example_world\<lparr>inet_pton_ret := 0\<rparr>)
   = Some (Inl (Invalid_argument ''stoi''), \<lparr>socket = Some example_socket, connected = False\<rparr>)"
  by code_simp

text \<open>
  Claim C7, amended. \<^verbatim>\<open>ConnectionManager::connect\<close> returns false at once for an
  empty host or port, and a manager that holds a socket disconnects first (the call
  behaves as on the disconnected manager). When the socket can be created and the port
  is a number for \<^verbatim>\<open>std::stoi\<close>: an address that \<^verbatim>\<open>inet_pton\<close> rejects returns false
  without an exception; a failure of \<^verbatim>\<open>Socket::connect\<close> returns false and leaves the
  manager disconnected (flag false, \<open>isConnected\<close> false); success sets the flag and
  returns true.
\<close>

theorem ConnectionManager_connect_outcomes:
  assumes "manager_inv m"
  shows
   "(ip = [] \<or> port = [] \<longrightarrow> ConnectionManager_connect m ip port w = Some (Inr False, m)) \<and>
    (ip \<noteq> [] \<and> port \<noteq> [] \<and> socket m \<noteq> None \<longrightarrow>
       ConnectionManager_connect m ip port w = ConnectionManager_connect (disconnect m) ip port w) \<and>
    (ip \<noteq> [] \<and> port \<noteq> [] \<and> Socket_create w = Inr s \<and> stoi port 10 = Inr p \<longrightarrow>
       (inet_pton_ret w \<le> 0 \<longrightarrow>
          ConnectionManager_connect m ip port w
            = Some (Inr False, \<lparr>socket = Some s, connected = False\<rparr>)) \<and>
       (0 < inet_pton_ret w \<and> Socket_connect s w TIMEOUT_MS = Some (Inl e, s') \<longrightarrow>
          ConnectionManager_connect m ip port w
            = Some (Inr False, \<lparr>socket = Some s', connected = False\<rparr>) \<and>
          fst (isConnected \<lparr>socket = Some s', connected = False\<rparr> pk) = False) \<and>
       (0 < inet_pton_ret w \<and> Socket_connect s w TIMEOUT_MS = Some (Inr (), s') \<longrightarrow>
          ConnectionManager_connect m ip port w
            = Some (Inr True, \<lparr>socket = Some s', connected = True\<rparr>)))"
proof -
  have a: "ip = [] \<or> port = [] \<longrightarrow> ConnectionManager_connect m ip port w = Some (Inr False, m)"
    by (simp add: ConnectionManager_connect_def)
  have b: "ip \<noteq> [] \<and> port \<noteq> [] \<and> socket m \<noteq> None \<longrightarrow>
       ConnectionManager_connect m ip port w = ConnectionManager_connect (disconnect m) ip port w"
    by (simp add: ConnectionManager_connect_def Let_def) (simp add: disconnect_def)
  have c: "ip \<noteq> [] \<and> port \<noteq> [] \<and> Socket_create w = Inr s \<and> stoi port 10 = Inr p \<longrightarrow>
       (inet_pton_ret w \<le> 0 \<longrightarrow>
          ConnectionManager_connect m ip port w
            = Some (Inr False, \<lparr>socket = Some s, connected = False\<rparr>)) \<and>
       (0 < inet_pton_ret w \<and> Socket_connect s w TIMEOUT_MS = Some (Inl e, s') \<longrightarrow>
          ConnectionManager_connect m ip port w
            = Some (Inr False, \<lparr>socket = Some s', connected = False\<rparr>) \<and>
          fst (isConnected \<lparr>socket = Some s', connected = False\<rparr> pk) = False) \<and>
       (0 < inet_pton_ret w \<and> Socket_connect s w TIMEOUT_MS = Some (Inr (), s') \<longrightarrow>
          ConnectionManager_connect m ip port w
            = Some (Inr True, \<lparr>socket = Some s', connected = True\<rparr>))"
  proof (intro impI, elim conjE)
    assume h: "ip \<noteq> []" "port \<noteq> []" "Socket_create w = Inr s" "stoi port 10 = Inr p"
    have eq: "ConnectionManager_connect m ip port w =
       (if inet_pton_ret w \<le> 0 then Some (Inr False, \<lparr>socket = Some s, connected = False\<rparr>)
        else case Socket_connect s w TIMEOUT_MS of
               None \<Rightarrow> None
             | Some (Inr u, s') \<Rightarrow> Some (Inr True, \<lparr>socket = Some s', connected = True\<rparr>)
             | Some (Inl e, s') \<Rightarrow>
                 if is_runtime_error e then Some (Inr False, \<lparr>socket = Some s', connected = False\<rparr>)
                 else Some (Inl e, \<lparr>socket = Some s', connected = False\<rparr>))"
      using h assms
      by (cases m)
        (auto simp: ConnectionManager_connect_def Let_def disconnect_def manager_inv_def
           split: option.splits sum.splits prod.splits)
    show "(inet_pton_ret w \<le> 0 \<longrightarrow>
          ConnectionManager_connect m ip port w
            = Some (Inr False, \<lparr>socket = Some s, connected = False\<rparr>)) \<and>
       (0 < inet_pton_ret w \<and> Socket_connect s w TIMEOUT_MS = Some (Inl e, s') \<longrightarrow>
          ConnectionManager_connect m ip port w
            = Some (Inr False, \<lparr>socket = Some s', connected = False\<rparr>) \<and>
          fst (isConnected \<lparr>socket = Some s', connected = False\<rparr> pk) = False) \<and>
       (0 < inet_pton_ret w \<and> Socket_connect s w TIMEOUT_MS = Some (Inr (), s') \<longrightarrow>
          ConnectionManager_connect m ip port w
            = Some (Inr True, \<lparr>socket = Some s', connected = True\<rparr>))"
      using Socket_connect_raises_runtime_error[of s w TIMEOUT_MS e s']
      by (auto simp: eq isConnected_not_connected)
  qed
  from a b c show ?thesis by blast
qed

theorem ConnectionManager_connect_witness:
  "manager_inv example_manager \<and> ''127.0.0.1'' \<noteq> [] \<and> ''80'' \<noteq> [] \<and>
   socket example_manager \<noteq> None \<and>
   Socket_create example_world = Inr example_socket \<and> stoi ''80'' 10 = Inr 80 \<and>
   0 < inet_pton_ret example_world \<and>
   Socket_connect example_socket example_world TIMEOUT_MS
     = Some (Inl (Runtime_error (Msg ''Connection timed out'')),
             example_socket\<lparr>status_flags := 2050\<rparr>) \<and>
   ConnectionManager_connect example_manager ''127.0.0.1'' ''80'' example_world
     = ConnectionManager_connect (disconnect example_manager) ''127.0.0.1'' ''80'' example_world \<and>
   ConnectionManager_connect example_manager ''127.0.0.1'' ''80'' example_world
     = Some (Inr False, \<lparr>socket = Some (example_socket\<lparr>status_flags := 2050\<rparr>), connected = False\<rparr>) \<and>
   ConnectionManager_connect example_manager [] ''80'' example_world
     = Some (Inr False, example_manager)"
proof -
  have inv: "manager_inv example_manager"
    by code_simp
  have h: "''127.0.0.1'' \<noteq> []" "''80'' \<noteq> []" "socket example_manager \<noteq> None"
      "0 < inet_pton_ret example_world"
    by (simp_all add: example_manager_def example_world_def)
  have sc: "Socket_create example_world = Inr example_socket"
    by code_simp
  have st: "stoi ''80'' 10 = Inr 80"
    by code_simp
  have co: "Socket_connect example_socket example_world TIMEOUT_MS
     = Some (Inl (Runtime_error (Msg ''Connection timed out'')),
             example_socket\<lparr>status_flags := 2050\<rparr>)"
    by code_simp
  note t1 = ConnectionManager_connect_outcomes[OF inv, where ip = "''127.0.0.1''" and port = "''80''"
      and w = example_world and s = example_socket and p = 80
      and e = "Runtime_error (Msg ''Connection timed out'')"
      and s' = "example_socket\<lparr>status_flags := 2050\<rparr>"]
  note t2 = ConnectionManager_connect_outcomes[OF inv, where ip = "[]" and port = "''80''"
      and w = example_world]
  from t1 t2 inv h sc st co show ?thesis
    by blast
qed

section \<open>Receiving a framed response\<close>

lemma read_body_done:
  "n \<le> int (length b) \<Longrightarrow> read_body m n b rest = Some (Inr (Some b))"
  by (cases rest) auto

lemma read_body_unreadable:
  "0 < n \<Longrightarrow> int (length b) < n \<Longrightarrow> poll_ret \<le> 0 \<Longrightarrow>
     read_body m n b ((poll_ret, r) # rest) = Some (Inr None)"
  by (simp add: isReadable_def pollSocket_def split: option.splits)

lemma read_body_good_step:
  assumes "socket m \<noteq> None" "0 < n" "int (length b) < n" "good_read a"
  shows "read_body m n b (a # rest) = read_body m n (b @ received a) rest"
proof -
  obtain p r where a: "a = (p, r)" by (cases a)
  obtain k buf where o: "os_recv r BUFFER_SIZE = (k, buf)" by (cases "os_recv r BUFFER_SIZE")
  from assms(4) a o have p: "0 < p" and k: "0 < k"
    by (simp_all add: good_read_def)
  from o k have sr: "Socket_recv r BUFFER_SIZE = Inr (k, buf)"
    by (simp add: Socket_recv_def)
  from assms(1) p have rd: "isReadable m p"
    by (auto simp: isReadable_def pollSocket_def)
  show ?thesis
    using assms(2,3) k rd sr o by (simp add: a received_def)
qed

lemma read_body_good:
  assumes "socket m \<noteq> None" "0 < n"
  shows "list_all good_read good \<Longrightarrow> int (length (b @ concat (map received good))) < n \<Longrightarrow>
     read_body m n b (good @ rest) = read_body m n (b @ concat (map received good)) rest"
proof (induction good arbitrary: b)
  case Nil
  then show ?case by simp
next
  case (Cons a good)
  from Cons.prems(2) have lt: "int (length b) < n" by simp
  from Cons.prems(1) have g: "good_read a" and gs: "list_all good_read good" by simp_all
  from Cons.prems(2) have "int (length ((b @ received a) @ concat (map received good))) < n"
    by simp
  from Cons.IH[OF gs this] read_body_good_step[OF assms lt g] show ?case
    by simp
qed

lemma read_body_empty_read:
  assumes "socket m \<noteq> None" "0 < n" "int (length b) < n" "0 < poll_ret"
    and "r = Recv_gets [] \<or> (\<exists>e. r = Recv_fails e \<and> would_block e)"
  shows "read_body m n b ((poll_ret, r) # rest) = Some (Inr (Some b))"
proof -
  from assms(1,4) have rd: "isReadable m poll_ret"
    by (auto simp: isReadable_def pollSocket_def)
  from assms(5) have "\<exists>k buf. Socket_recv r BUFFER_SIZE = Inr (k, buf) \<and> k \<le> 0"
    by (auto simp: Socket_recv_def would_block_def)
  then obtain k buf where "Socket_recv r BUFFER_SIZE = Inr (k, buf)" "k \<le> 0" by blast
  with assms(2,3) rd show ?thesis by simp
qed

text \<open>
  The header name is compared as it is written: \<^verbatim>\<open>receive\<close> lower-cases the key it
  looks for, not the header lines, so only a lower-case \<^verbatim>\<open>content-length\<close> line gives
  a content length.
\<close>

lemma declared_length_compares_exactly:
  "declared_length (''HTTP/1.1 200 OK'' @ CRLF @ ''content-length: 10'') = Inr 10 \<and>
   declared_length (''HTTP/1.1 200 OK'' @ CRLF @ ''Content-Length: 10'') = Inr 0"
  by code_simp

text \<open>
  Claim C1, as the specification states it, fails: the response announces ten body
  bytes, two have arrived, and the next readiness poll reports the socket not readable;
  \<^verbatim>\<open>receive\<close> returns \<^verbatim>\<open>std::nullopt\<close>, not the bytes read so far.
\<close>

theorem receive_unreadable_counterexample:
  "socket example_manager \<noteq> None \<and>
   read_headers example_manager [] [(1, Recv_gets example_partial), (0, Recv_gets ''x'')]
     = Some (Inr (Some (example_partial, [(0, Recv_gets ''x'')]))) \<and>
   find_str (CRLF @ CRLF) example_partial = Some 35 \<and>
   declared_length (substr example_partial 0 35) = Inr 10 \<and>
   substr_from example_partial (35 + 4) = ''hi'' \<and>
   \<not> isReadable example_manager 0 \<and>
   receive example_manager [(1, Recv_gets example_partial), (0, Recv_gets ''x'')] = Some (Inr None)"
  by code_simp

text \<open>
  Claim C1, amended. Let the header block hold a content length that \<^verbatim>\<open>receive\<close>
  recognises (\<open>declared_length\<close>). When the body fragment read with the headers already
  has that length, the message is returned as it is. Otherwise, after any number of
  reads that leave the body shorter than the content length: if the readiness poll
  reports the socket not readable, \<^verbatim>\<open>receive\<close> returns \<^verbatim>\<open>std::nullopt\<close>; if the
  socket is readable and the read returns nothing (the peer has closed, or the read
  would block), \<^verbatim>\<open>receive\<close> returns the headers, the delimiter and the partial body
  read so far.
\<close>

theorem receive_partial_body:
  assumes "socket m \<noteq> None"
    and "read_headers m [] answers = Some (Inr (Some (data, rest)))"
    and "find_str (CRLF @ CRLF) data = Some headerEnd"
    and "declared_length (substr data 0 headerEnd) = Inr n"
  shows
    "(n \<le> int (length (substr_from data (headerEnd + 4))) \<longrightarrow>
        receive m answers = Some (Inr (Some (substr data 0 headerEnd @ CRLF @ CRLF
                                  @ substr_from data (headerEnd + 4))))) \<and>
     (rest = good @ (poll_ret, r) # tail \<and> list_all good_read good \<and>
      int (length (substr_from data (headerEnd + 4) @ concat (map received good))) < n \<longrightarrow>
        (poll_ret \<le> 0 \<longrightarrow> receive m answers = Some (Inr None)) \<and>
        (0 < poll_ret \<and> (r = Recv_gets [] \<or> (\<exists>e. r = Recv_fails e \<and> would_block e)) \<longrightarrow>
           receive m answers =
             Some (Inr (Some (substr data 0 headerEnd @ CRLF @ CRLF
                      @ substr_from data (headerEnd + 4) @ concat (map received good))))))"
proof -
  have rc: "receive m answers =
      (case read_body m n (substr_from data (headerEnd + 4)) rest of
         None \<Rightarrow> None
       | Some (Inl e) \<Rightarrow> Some (Inl e)
       | Some (Inr None) \<Rightarrow> Some (Inr None)
       | Some (Inr (Some body')) \<Rightarrow>
           Some (Inr (Some (substr data 0 headerEnd @ CRLF @ CRLF @ body'))))"
    using assms by (auto simp: receive_def Let_def)
  have a: "n \<le> int (length (substr_from data (headerEnd + 4))) \<longrightarrow>
        receive m answers = Some (Inr (Some (substr data 0 headerEnd @ CRLF @ CRLF
                                  @ substr_from data (headerEnd + 4))))"
    by (simp add: rc read_body_done)
  have b: "rest = good @ (poll_ret, r) # tail \<and> list_all good_read good \<and>
      int (length (substr_from data (headerEnd + 4) @ concat (map received good))) < n \<longrightarrow>
        (poll_ret \<le> 0 \<longrightarrow> receive m answers = Some (Inr None)) \<and>
        (0 < poll_ret \<and> (r = Recv_gets [] \<or> (\<exists>e. r = Recv_fails e \<and> would_block e)) \<longrightarrow>
           receive m answers =
             Some (Inr (Some (substr data 0 headerEnd @ CRLF @ CRLF
                      @ substr_from data (headerEnd + 4) @ concat (map received good)))))"
  proof (intro impI, elim conjE)
    assume r: "rest = good @ (poll_ret, r) # tail" and g: "list_all good_read good"
      and l: "int (length (substr_from data (headerEnd + 4) @ concat (map received good))) < n"
    define b where "b = substr_from data (headerEnd + 4) @ concat (map received good)"
    from l have lt: "int (length b) < n"
      by (simp add: b_def)
    then have n: "0 < n"
      by linarith
    have rb: "read_body m n (substr_from data (headerEnd + 4)) rest
        = read_body m n b ((poll_ret, r) # tail)"
      unfolding r b_def using read_body_good[OF assms(1) n g l] .
    have c: "poll_ret \<le> 0 \<longrightarrow> receive m answers = Some (Inr None)"
      using read_body_unreadable[OF n lt, of poll_ret m r tail] by (simp add: rc rb)
    have d: "0 < poll_ret \<and> (r = Recv_gets [] \<or> (\<exists>e. r = Recv_fails e \<and> would_block e)) \<longrightarrow>
        receive m answers = Some (Inr (Some (substr data 0 headerEnd @ CRLF @ CRLF @ b)))"
      using read_body_empty_read[OF assms(1) n lt, of poll_ret r tail] by (simp add: rc rb)
    from c d show "(poll_ret \<le> 0 \<longrightarrow> receive m answers = Some (Inr None)) \<and>
        (0 < poll_ret \<and> (r = Recv_gets [] \<or> (\<exists>e. r = Recv_fails e \<and> would_block e)) \<longrightarrow>
           receive m answers =
             Some (Inr (Some (substr data 0 headerEnd @ CRLF @ CRLF
                      @ substr_from data (headerEnd + 4) @ concat (map received good)))))"
      unfolding b_def by blast
  qed
  from a b show ?thesis
    by blast
qed

theorem receive_partial_body_witness:
  "socket example_manager \<noteq> None \<and>
   read_headers example_manager [] [(1, Recv_gets example_partial), (1, Recv_gets ''abc''), (2, Recv_gets [])]
     = Some (Inr (Some (example_partial, [(1, Recv_gets ''abc''), (2, Recv_gets [])]))) \<and>
   find_str (CRLF @ CRLF) example_partial = Some 35 \<and>
   declared_length (substr example_partial 0 35) = Inr 10 \<and>
   [(1::int, Recv_gets ''abc''), (2, Recv_gets [])] = [(1, Recv_gets ''abc'')] @ (2, Recv_gets []) # [] \<and>
   list_all good_read [(1, Recv_gets ''abc'')] \<and>
   int (length (substr_from example_partial (35 + 4) @ concat (map received [(1, Recv_gets ''abc'')]))) < 10 \<and>
   receive example_manager [(1, Recv_gets example_partial), (1, Recv_gets ''abc''), (2, Recv_gets [])]
     = Some (Inr (Some (substr example_partial 0 35 @ CRLF @ CRLF
          @ substr_from example_partial (35 + 4) @ concat (map received [(1, Recv_gets ''abc'')]))))"
proof -
  have h1: "socket example_manager \<noteq> None"
    by (simp add: example_manager_def)
  have h2: "read_headers example_manager []
      [(1, Recv_gets example_partial), (1, Recv_gets ''abc''), (2, Recv_gets [])]
     = Some (Inr (Some (example_partial, [(1, Recv_gets ''abc''), (2, Recv_gets [])])))"
    by code_simp
  have h3: "find_str (CRLF @ CRLF) example_partial = Some 35"
    by code_simp
  have h4: "declared_length (substr example_partial 0 35) = Inr 10"
    by code_simp
  have h5: "[(1::int, Recv_gets ''abc''), (2, Recv_gets [])] = [(1, Recv_gets ''abc'')] @ (2, Recv_gets []) # []"
    by simp
  have h6: "list_all good_read [(1, Recv_gets ''abc'')]"
    by code_simp
  have h7: "int (length (substr_from example_partial (35 + 4)
      @ concat (map received [(1, Recv_gets ''abc'')]))) < 10"
    by code_simp
  have h8: "(0::int) < 2"
    by simp
  from receive_partial_body[OF h1 h2 h3 h4, where good = "[(1, Recv_gets ''abc'')]"
      and poll_ret = 2 and r = "Recv_gets []" and tail = "[]"] h1 h2 h3 h4 h5 h6 h7 h8
  show ?thesis
    by blast
qed

section \<open>The client\<close>

lemma is_std_exception_all: "is_std_exception e"
  by (cases e) simp_all

lemma processRequest_of_try:
  "processRequest m request ip port w =
     (case processRequest_try m request ip port w of
        None \<Rightarrow> None
      | Some (Inr u, m', lg) \<Rightarrow> Some (Inr (), m', lg)
      | Some (Inl e, m', lg) \<Rightarrow>
          Some (Inr (), m', lg @ [Log_what ''Failed to process request: '' e ERROR]))"
  by (simp add: processRequest_def is_std_exception_all split: option.splits sum.splits prod.splits)

lemma try_of_ready:
  "connection_ready m ip port w m1 \<Longrightarrow>
     processRequest_try m request ip port w = exchange m1 request ip port w"
  by (auto simp: connection_ready_def processRequest_try_def split: prod.splits bool.splits)

lemma processRequest_connect_raises:
  "isConnected m (peek w) = (False, m0) \<Longrightarrow>
   ConnectionManager_connect m0 ip port (conn w) = Some (Inl e, m2) \<Longrightarrow>
     processRequest m request ip port w
       = Some (Inr (), m2, [Log_what ''Failed to process request: '' e ERROR])"
  by (simp add: processRequest_of_try processRequest_try_def)

lemma processRequest_connect_false:
  "isConnected m (peek w) = (False, m0) \<Longrightarrow>
   ConnectionManager_connect m0 ip port (conn w) = Some (Inr False, m2) \<Longrightarrow>
     processRequest m request ip port w
       = Some (Inr (), m2, [Log (''Failed to connect to '' @ ip @ '':'' @ port) ERROR])"
  by (simp add: processRequest_of_try processRequest_try_def)

lemma processRequest_send_raises:
  "connection_ready m ip port w m1 \<Longrightarrow>
   ConnectionManager_send m1 (serializeRequest request) (sends w) = Some (Inl e) \<Longrightarrow>
     processRequest m request ip port w
       = Some (Inr (), m1,
           [Log (''Connected to '' @ ip @ '':'' @ port) INFO, Log ''Serialized request.'' DEBUG,
            Log_what ''Failed to process request: '' e ERROR])"
  by (simp add: processRequest_of_try try_of_ready exchange_def)

lemma processRequest_send_false:
  "connection_ready m ip port w m1 \<Longrightarrow>
   ConnectionManager_send m1 (serializeRequest request) (sends w) = Some (Inr False) \<Longrightarrow>
     processRequest m request ip port w
       = Some (Inr (), m1,
           [Log (''Connected to '' @ ip @ '':'' @ port) INFO, Log ''Serialized request.'' DEBUG,
            Log (''Failed to send request to '' @ ip @ '':'' @ port) ERROR])"
  by (simp add: processRequest_of_try try_of_ready exchange_def)

lemma processRequest_receive_raises:
  "connection_ready m ip port w m1 \<Longrightarrow>
   ConnectionManager_send m1 (serializeRequest request) (sends w) = Some (Inr True) \<Longrightarrow>
   receive m1 (reads w) = Some (Inl e) \<Longrightarrow>
     processRequest m request ip port w
       = Some (Inr (), m1,
           [Log (''Connected to '' @ ip @ '':'' @ port) INFO, Log ''Serialized request.'' DEBUG,
            Display_request request,
            Log_what ''Failed to process request: '' e ERROR])"
  by (simp add: processRequest_of_try try_of_ready exchange_def)

lemma processRequest_receive_nothing:
  "connection_ready m ip port w m1 \<Longrightarrow>
   ConnectionManager_send m1 (serializeRequest request) (sends w) = Some (Inr True) \<Longrightarrow>
   receive m1 (reads w) = Some (Inr None) \<Longrightarrow>
     processRequest m request ip port w
       = Some (Inr (), m1,
           [Log (''Connected to '' @ ip @ '':'' @ port) INFO, Log ''Serialized request.'' DEBUG,
            Display_request request,
            Log (''Failed to receive response from '' @ ip @ '':'' @ port) ERROR])"
  by (simp add: processRequest_of_try try_of_ready exchange_def)

lemma processRequest_parse_raises:
  "connection_ready m ip port w m1 \<Longrightarrow>
   ConnectionManager_send m1 (serializeRequest request) (sends w) = Some (Inr True) \<Longrightarrow>
   receive m1 (reads w) = Some (Inr (Some raw)) \<Longrightarrow>
   parseResponse raw = Inl e \<Longrightarrow>
     processRequest m request ip port w
       = Some (Inr (), m1,
           [Log (''Connected to '' @ ip @ '':'' @ port) INFO, Log ''Serialized request.'' DEBUG,
            Display_request request,
            Log ''Raw response received. Parsing....'' DEBUG,
            Log_what ''Failed to process request: '' e ERROR])"
  by (simp add: processRequest_of_try try_of_ready exchange_def)

lemma processRequest_not_keep_alive:
  "connection_ready m ip port w m1 \<Longrightarrow>
   ConnectionManager_send m1 (serializeRequest request) (sends w) = Some (Inr True) \<Longrightarrow>
   receive m1 (reads w) = Some (Inr (Some raw)) \<Longrightarrow>
   parseResponse raw = Inr response \<Longrightarrow> \<not> isKeepAlive response \<Longrightarrow>
     processRequest m request ip port w
       = Some (Inr (), \<lparr>socket = None, connected = False\<rparr>,
           [Log (''Connected to '' @ ip @ '':'' @ port) INFO, Log ''Serialized request.'' DEBUG,
            Display_request request,
            Log ''Raw response received. Parsing....'' DEBUG,
            Display_response response,
            Log ''Connection not kept alive. Disconnecting.'' INFO])"
  by (cases m1) (simp add: processRequest_of_try try_of_ready exchange_def disconnect_def)

lemma processRequest_keep_alive:
  "connection_ready m ip port w m1 \<Longrightarrow>
   ConnectionManager_send m1 (serializeRequest request) (sends w) = Some (Inr True) \<Longrightarrow>
   receive m1 (reads w) = Some (Inr (Some raw)) \<Longrightarrow>
   parseResponse raw = Inr response \<Longrightarrow> isKeepAlive response \<Longrightarrow>
     processRequest m request ip port w
       = Some (Inr (), m1,
           [Log (''Connected to '' @ ip @ '':'' @ port) INFO, Log ''Serialized request.'' DEBUG,
            Display_request request,
            Log ''Raw response received. Parsing....'' DEBUG,
            Display_response response])"
  by (simp add: processRequest_of_try try_of_ready exchange_def)

lemma processRequest_connect_pending:
  "isConnected m (peek w) = (False, mA) \<Longrightarrow>
   ConnectionManager_connect mA ip port (conn w) = None \<Longrightarrow>
     processRequest m request ip port w = None"
  by (simp add: processRequest_of_try processRequest_try_def)

lemma processRequest_send_pending:
  "connection_ready m ip port w mB \<Longrightarrow>
   ConnectionManager_send mB (serializeRequest request) (sends w) = None \<Longrightarrow>
     processRequest m request ip port w = None"
  by (simp add: processRequest_of_try try_of_ready exchange_def)

lemma processRequest_receive_pending:
  "connection_ready m ip port w mB \<Longrightarrow>
   ConnectionManager_send mB (serializeRequest request) (sends w) = Some (Inr True) \<Longrightarrow>
   receive mB (reads w) = None \<Longrightarrow>
     processRequest m request ip port w = None"
  by (simp add: processRequest_of_try try_of_ready exchange_def)

lemma parseResponse_outcomes:
  "parseResponse raw =
     (if fst (parse HttpResponse_init raw) then Inr (snd (parse HttpResponse_init raw))
      else Inl (Runtime_error (Msg ''Failed to parse HTTP response.'')))"
  by (simp add: parseResponse_def split: prod.splits bool.splits)

lemma exchange_displayed:
  assumes "exchange m request ip port w = Some (out, m', lg)"
    and "Display_response response \<in> set lg"
  shows "out = Inr () \<and> m' = (if isKeepAlive response then m else disconnect m)"
  using assms
  by (auto simp: exchange_def Let_def split: option.splits sum.splits bool.splits if_splits)

lemma try_displayed:
  assumes "processRequest_try m request ip port w = Some (out, m', lg)"
    and "Display_response response \<in> set lg" and "\<not> isKeepAlive response"
  shows "out = Inr () \<and> socket m' = None \<and> \<not> connected m'"
proof -
  from assms(1,2) obtain m1 where "exchange m1 request ip port w = Some (out, m', lg)"
    by (auto simp: processRequest_try_def split: prod.splits bool.splits option.splits sum.splits)
  from exchange_displayed[OF this assms(2)] assms(3) show ?thesis
    by (simp add: disconnect_def)
qed

lemma processRequest_general:
  "(processRequest_try m request ip port w \<noteq> None \<longrightarrow> processRequest m request ip port w \<noteq> None) \<and>
   (processRequest m request ip port w = Some (out, m', lg) \<longrightarrow>
      out = Inr () \<and>
      (\<forall>e m1 lg1. processRequest_try m request ip port w = Some (Inl e, m1, lg1) \<longrightarrow>
         m' = m1 \<and> lg = lg1 @ [Log_what ''Failed to process request: '' e ERROR]) \<and>
      (\<forall>response. Display_response response \<in> set lg \<and> \<not> isKeepAlive response \<longrightarrow>
         socket m' = None \<and> \<not> connected m'))"
proof -
  have a: "processRequest_try m request ip port w \<noteq> None \<longrightarrow> processRequest m request ip port w \<noteq> None"
    by (auto simp: processRequest_of_try split: option.splits sum.splits prod.splits)
  have b: "processRequest m request ip port w = Some (out, m', lg) \<longrightarrow>
      out = Inr () \<and>
      (\<forall>e m1 lg1. processRequest_try m request ip port w = Some (Inl e, m1, lg1) \<longrightarrow>
         m' = m1 \<and> lg = lg1 @ [Log_what ''Failed to process request: '' e ERROR]) \<and>
      (\<forall>response. Display_response response \<in> set lg \<and> \<not> isKeepAlive response \<longrightarrow>
         socket m' = None \<and> \<not> connected m')"
  proof
    assume pr: "processRequest m request ip port w = Some (out, m', lg)"
    then obtain o1 lg1 where t: "processRequest_try m request ip port w = Some (o1, m', lg1)"
      by (auto simp: processRequest_of_try split: option.splits sum.splits prod.splits if_splits)
    from pr t have out: "out = Inr ()"
      by (auto simp: processRequest_of_try split: sum.splits)
    from pr t have lg: "lg = (case o1 of Inr u \<Rightarrow> lg1 | Inl e \<Rightarrow> lg1 @ [Log_what ''Failed to process request: '' e ERROR])"
      by (auto simp: processRequest_of_try split: sum.splits)
    have c: "\<forall>e m1 lg2. processRequest_try m request ip port w = Some (Inl e, m1, lg2) \<longrightarrow>
         m' = m1 \<and> lg = lg2 @ [Log_what ''Failed to process request: '' e ERROR]"
      using t lg by auto
    have d: "\<forall>response. Display_response response \<in> set lg \<and> \<not> isKeepAlive response \<longrightarrow>
         socket m' = None \<and> \<not> connected m'"
    proof (intro allI impI, elim conjE)
      fix response
      assume "Display_response response \<in> set lg" and nk: "\<not> isKeepAlive response"
      with lg have "Display_response response \<in> set lg1"
        by (cases o1) auto
      from try_displayed[OF t this nk] show "socket m' = None \<and> \<not> connected m'"
        by simp
    qed
    from out c d show "out = Inr () \<and>
      (\<forall>e m1 lg1. processRequest_try m request ip port w = Some (Inl e, m1, lg1) \<longrightarrow>
         m' = m1 \<and> lg = lg1 @ [Log_what ''Failed to process request: '' e ERROR]) \<and>
      (\<forall>response. Display_response response \<in> set lg \<and> \<not> isKeepAlive response \<longrightarrow>
         socket m' = None \<and> \<not> connected m')"
      by blast
  qed
  from a b show ?thesis by blast
qed

text \<open>
  Claim C9. \<^verbatim>\<open>processRequest\<close> never ends with an exception, and every way it can
  end is fixed by what its steps do. An exception raised by \<^verbatim>\<open>connect\<close>, by sending,
  by receiving or by parsing is logged as the last event, the manager stays as the step
  left it, and nothing is tried again; a step that reports failure without an exception
  is logged and ends the call. A response that has been parsed and is not keep-alive
  is displayed and the manager is disconnected; a keep-alive response leaves the manager
  as it is. \<^verbatim>\<open>parseResponse\<close> raises exactly when the parse fails. While
  \<^verbatim>\<open>connect\<close>, the send loop or a read loop has not ended, neither has the call.
\<close>

theorem processRequest_contains_exceptions:
  "(isConnected m (peek w) = (False, mA) \<and>
    ConnectionManager_connect mA ip port (conn w) = Some (Inl e, mC) \<longrightarrow>
      processRequest m request ip port w
        = Some (Inr (), mC, [Log_what ''Failed to process request: '' e ERROR])) \<and>
   (isConnected m (peek w) = (False, mA) \<and>
    ConnectionManager_connect mA ip port (conn w) = Some (Inr False, mC) \<longrightarrow>
      processRequest m request ip port w
        = Some (Inr (), mC, [Log (''Failed to connect to '' @ ip @ '':'' @ port) ERROR])) \<and>
   (connection_ready m ip port w mB \<and> ConnectionManager_send mB (serializeRequest request) (sends w) = Some (Inl e) \<longrightarrow>
      processRequest m request ip port w
        = Some (Inr (), mB,
            [Log (''Connected to '' @ ip @ '':'' @ port) INFO, Log ''Serialized request.'' DEBUG,
             Log_what ''Failed to process request: '' e ERROR])) \<and>
   (connection_ready m ip port w mB \<and> ConnectionManager_send mB (serializeRequest request) (sends w) = Some (Inr False) \<longrightarrow>
      processRequest m request ip port w
        = Some (Inr (), mB,
            [Log (''Connected to '' @ ip @ '':'' @ port) INFO, Log ''Serialized request.'' DEBUG,
             Log (''Failed to send request to '' @ ip @ '':'' @ port) ERROR])) \<and>
   (connection_ready m ip port w mB \<and> ConnectionManager_send mB (serializeRequest request) (sends w) = Some (Inr True) \<and>
    receive mB (reads w) = Some (Inl e) \<longrightarrow>
      processRequest m request ip port w
        = Some (Inr (), mB,
            [Log (''Connected to '' @ ip @ '':'' @ port) INFO, Log ''Serialized request.'' DEBUG,
             Display_request request,
             Log_what ''Failed to process request: '' e ERROR])) \<and>
   (connection_ready m ip port w mB \<and> ConnectionManager_send mB (serializeRequest request) (sends w) = Some (Inr True) \<and>
    receive mB (reads w) = Some (Inr None) \<longrightarrow>
      processRequest m request ip port w
        = Some (Inr (), mB,
            [Log (''Connected to '' @ ip @ '':'' @ port) INFO, Log ''Serialized request.'' DEBUG,
             Display_request request,
             Log (''Failed to receive response from '' @ ip @ '':'' @ port) ERROR])) \<and>
   (connection_ready m ip port w mB \<and> ConnectionManager_send mB (serializeRequest request) (sends w) = Some (Inr True) \<and>
    receive mB (reads w) = Some (Inr (Some raw)) \<and> parseResponse raw = Inl e \<longrightarrow>
      processRequest m request ip port w
        = Some (Inr (), mB,
            [Log (''Connected to '' @ ip @ '':'' @ port) INFO, Log ''Serialized request.'' DEBUG,
             Display_request request,
             Log ''Raw response received. Parsing....'' DEBUG,
             Log_what ''Failed to process request: '' e ERROR])) \<and>
   (connection_ready m ip port w mB \<and> ConnectionManager_send mB (serializeRequest request) (sends w) = Some (Inr True) \<and>
    receive mB (reads w) = Some (Inr (Some raw)) \<and> parseResponse raw = Inr response \<and>
    \<not> isKeepAlive response \<longrightarrow>
      processRequest m request ip port w
        = Some (Inr (), \<lparr>socket = None, connected = False\<rparr>,
            [Log (''Connected to '' @ ip @ '':'' @ port) INFO, Log ''Serialized request.'' DEBUG,
             Display_request request,
             Log ''Raw response received. Parsing....'' DEBUG,
             Display_response response,
             Log ''Connection not kept alive. Disconnecting.'' INFO])) \<and>
   (connection_ready m ip port w mB \<and> ConnectionManager_send mB (serializeRequest request) (sends w) = Some (Inr True) \<and>
    receive mB (reads w) = Some (Inr (Some raw)) \<and> parseResponse raw = Inr response \<and>
    isKeepAlive response \<longrightarrow>
      processRequest m request ip port w
        = Some (Inr (), mB,
            [Log (''Connected to '' @ ip @ '':'' @ port) INFO, Log ''Serialized request.'' DEBUG,
             Display_request request,
             Log ''Raw response received. Parsing....'' DEBUG,
             Display_response response])) \<and>
   parseResponse raw =
     (if fst (parse HttpResponse_init raw) then Inr (snd (parse HttpResponse_init raw))
      else Inl (Runtime_error (Msg ''Failed to parse HTTP response.''))) \<and>
   (processRequest_try m request ip port w \<noteq> None \<longrightarrow> processRequest m request ip port w \<noteq> None) \<and>
   (processRequest m request ip port w = Some (out, m', lg) \<longrightarrow>
      out = Inr () \<and>
      (\<forall>x mx lgx. processRequest_try m request ip port w = Some (Inl x, mx, lgx) \<longrightarrow>
         m' = mx \<and> lg = lgx @ [Log_what ''Failed to process request: '' x ERROR]) \<and>
      (\<forall>response. Display_response response \<in> set lg \<and> \<not> isKeepAlive response \<longrightarrow>
         socket m' = None \<and> \<not> connected m')) \<and>
   (isConnected m (peek w) = (False, mA) \<and>
    ConnectionManager_connect mA ip port (conn w) = None \<longrightarrow>
      processRequest m request ip port w = None) \<and>
   (connection_ready m ip port w mB \<and> ConnectionManager_send mB (serializeRequest request) (sends w) = None \<longrightarrow>
      processRequest m request ip port w = None) \<and>
   (connection_ready m ip port w mB \<and> ConnectionManager_send mB (serializeRequest request) (sends w) = Some (Inr True) \<and>
    receive mB (reads w) = None \<longrightarrow>
      processRequest m request ip port w = None)"
proof -
  have c1: "(isConnected m (peek w) = (False, mA) \<and>
    ConnectionManager_connect mA ip port (conn w) = Some (Inl e, mC) \<longrightarrow>
      processRequest m request ip port w
        = Some (Inr (), mC, [Log_what ''Failed to process request: '' e ERROR]))"
    using processRequest_connect_raises by blast
  have c2: "(isConnected m (peek w) = (False, mA) \<and>
    ConnectionManager_connect mA ip port (conn w) = Some (Inr False, mC) \<longrightarrow>
      processRequest m request ip port w
        = Some (Inr (), mC, [Log (''Failed to connect to '' @ ip @ '':'' @ port) ERROR]))"
    using processRequest_connect_false by blast
  have c3: "(connection_ready m ip port w mB \<and> ConnectionManager_send mB (serializeRequest request) (sends w) = Some (Inl e) \<longrightarrow>
      processRequest m request ip port w
        = Some (Inr (), mB,
            [Log (''Connected to '' @ ip @ '':'' @ port) INFO, Log ''Serialized request.'' DEBUG,
             Log_what ''Failed to process request: '' e ERROR]))"
    using processRequest_send_raises by blast
  have c4: "(connection_ready m ip port w mB \<and> ConnectionManager_send mB (serializeRequest request) (sends w) = Some (Inr False) \<longrightarrow>
      processRequest m request ip port w
        = Some (Inr (), mB,
            [Log (''Connected to '' @ ip @ '':'' @ port) INFO, Log ''Serialized request.'' DEBUG,
             Log (''Failed to send request to '' @ ip @ '':'' @ port) ERROR]))"
    using processRequest_send_false by blast
  have c5: "(connection_ready m ip port w mB \<and> ConnectionManager_send mB (serializeRequest request) (sends w) = Some (Inr True) \<and>
    receive mB (reads w) = Some (Inl e) \<longrightarrow>
      processRequest m request ip port w
        = Some (Inr (), mB,
            [Log (''Connected to '' @ ip @ '':'' @ port) INFO, Log ''Serialized request.'' DEBUG,
             Display_request request,
             Log_what ''Failed to process request: '' e ERROR]))"
    using processRequest_receive_raises by blast
  have c6: "(connection_ready m ip port w mB \<and> ConnectionManager_send mB (serializeRequest request) (sends w) = Some (Inr True) \<and>
    receive mB (reads w) = Some (Inr None) \<longrightarrow>
      processRequest m request ip port w
        = Some (Inr (), mB,
            [Log (''Connected to '' @ ip @ '':'' @ port) INFO, Log ''Serialized request.'' DEBUG,
             Display_request request,
             Log (''Failed to receive response from '' @ ip @ '':'' @ port) ERROR]))"
    using processRequest_receive_nothing by blast
  have c7: "(connection_ready m ip port w mB \<and> ConnectionManager_send mB (serializeRequest request) (sends w) = Some (Inr True) \<and>
    receive mB (reads w) = Some (Inr (Some raw)) \<and> parseResponse raw = Inl e \<longrightarrow>
      processRequest m request ip port w
        = Some (Inr (), mB,
            [Log (''Connected to '' @ ip @ '':'' @ port) INFO, Log ''Serialized request.'' DEBUG,
             Display_request request,
             Log ''Raw response received. Parsing....'' DEBUG,
             Log_what ''Failed to process request: '' e ERROR]))"
    using processRequest_parse_raises by blast
  have c8: "(connection_ready m ip port w mB \<and> ConnectionManager_send mB (serializeRequest request) (sends w) = Some (Inr True) \<and>
    receive mB (reads w) = Some (Inr (Some raw)) \<and> parseResponse raw = Inr response \<and>
    \<not> isKeepAlive response \<longrightarrow>
      processRequest m request ip port w
        = Some (Inr (), \<lparr>socket = None, connected = False\<rparr>,
            [Log (''Connected to '' @ ip @ '':'' @ port) INFO, Log ''Serialized request.'' DEBUG,
             Display_request request,
             Log ''Raw response received. Parsing....'' DEBUG,
             Display_response response,
             Log ''Connection not kept alive. Disconnecting.'' INFO]))"
    using processRequest_not_keep_alive by blast
  have c9: "(connection_ready m ip port w mB \<and> ConnectionManager_send mB (serializeRequest request) (sends w) = Some (Inr True) \<and>
    receive mB (reads w) = Some (Inr (Some raw)) \<and> parseResponse raw = Inr response \<and>
    isKeepAlive response \<longrightarrow>
      processRequest m request ip port w
        = Some (Inr (), mB,
            [Log (''Connected to '' @ ip @ '':'' @ port) INFO, Log ''Serialized request.'' DEBUG,
             Display_request request,
             Log ''Raw response received. Parsing....'' DEBUG,
             Display_response response]))"
    using processRequest_keep_alive by blast
  have c10: "parseResponse raw =
     (if fst (parse HttpResponse_init raw) then Inr (snd (parse HttpResponse_init raw))
      else Inl (Runtime_error (Msg ''Failed to parse HTTP response.'')))"
    by (rule parseResponse_outcomes)
  have c11: "(processRequest_try m request ip port w \<noteq> None \<longrightarrow> processRequest m request ip port w \<noteq> None)"
    using processRequest_general[of m request ip port w out m' lg] by blast
  have c12: "(processRequest m request ip port w = Some (out, m', lg) \<longrightarrow>
      out = Inr () \<and>
      (\<forall>x mx lgx. processRequest_try m request ip port w = Some (Inl x, mx, lgx) \<longrightarrow>
         m' = mx \<and> lg = lgx @ [Log_what ''Failed to process request: '' x ERROR]) \<and>
      (\<forall>response. Display_response response \<in> set lg \<and> \<not> isKeepAlive response \<longrightarrow>
         socket m' = None \<and> \<not> connected m'))"
    using processRequest_general[of m request ip port w out m' lg] by blast
  have c13: "isConnected m (peek w) = (False, mA) \<and>
    ConnectionManager_connect mA ip port (conn w) = None \<longrightarrow>
      processRequest m request ip port w = None"
    using processRequest_connect_pending by blast
  have c14: "connection_ready m ip port w mB \<and> ConnectionManager_send mB (serializeRequest request) (sends w) = None \<longrightarrow>
      processRequest m request ip port w = None"
    using processRequest_send_pending by blast
  have c15: "connection_ready m ip port w mB \<and> ConnectionManager_send mB (serializeRequest request) (sends w) = Some (Inr True) \<and>
    receive mB (reads w) = None \<longrightarrow>
      processRequest m request ip port w = None"
    using processRequest_receive_pending by blast
  from c1 c2 c3 c4 c5 c6 c7 c8 c9 c10 c11 c12 c13 c14 c15 show ?thesis
    by (intro conjI)
qed


theorem processRequest_witness:
  "connection_ready example_manager ''127.0.0.1'' ''60001''
     (example_request_world) example_manager \<and>
   ConnectionManager_send example_manager (serializeRequest example_request)
       (sends (example_request_world))
     = Some (Inr True) \<and>
   receive example_manager (reads (example_request_world))
     = Some (Inr (Some (''HTTP/1.1 200 OK'' @ CRLF @ ''Connection: close'' @ CRLF @ CRLF))) \<and>
   parseResponse (''HTTP/1.1 200 OK'' @ CRLF @ ''Connection: close'' @ CRLF @ CRLF) = Inr example_response \<and>
   \<not> isKeepAlive example_response \<and>
   connection_ready example_manager ''127.0.0.1'' ''60001''
     (example_request_world\<lparr>sends := [Send_fails 32]\<rparr>) example_manager \<and>
   ConnectionManager_send example_manager (serializeRequest example_request)
       (sends (example_request_world\<lparr>sends := [Send_fails 32]\<rparr>))
     = Some (Inl (System_error 32 ''Failed to send data'')) \<and>
   connection_ready example_manager ''127.0.0.1'' ''60001''
     (example_request_world\<lparr>reads := [(1, Recv_fails 104)]\<rparr>) example_manager \<and>
   ConnectionManager_send example_manager (serializeRequest example_request)
       (sends (example_request_world\<lparr>reads := [(1, Recv_fails 104)]\<rparr>))
     = Some (Inr True) \<and>
   receive example_manager (reads (example_request_world\<lparr>reads := [(1, Recv_fails 104)]\<rparr>))
     = Some (Inl (System_error 104 ''Failed to receive data'')) \<and>
   connection_ready example_manager ''127.0.0.1'' ''60001''
     (example_request_world\<lparr>reads := [(1, Recv_gets (''garbage'' @ CRLF @ CRLF))]\<rparr>) example_manager \<and>
   ConnectionManager_send example_manager (serializeRequest example_request)
       (sends (example_request_world\<lparr>reads := [(1, Recv_gets (''garbage'' @ CRLF @ CRLF))]\<rparr>))
     = Some (Inr True) \<and>
   receive example_manager (reads (example_request_world\<lparr>reads := [(1, Recv_gets (''garbage'' @ CRLF @ CRLF))]\<rparr>))
     = Some (Inr (Some (''garbage'' @ CRLF @ CRLF))) \<and>
   parseResponse (''garbage'' @ CRLF @ CRLF) = Inl (Runtime_error (Msg ''Failed to parse HTTP response.'')) \<and>
   isConnected ConnectionManager_init (peek example_request_world) = (False, ConnectionManager_init) \<and>
   ConnectionManager_connect ConnectionManager_init ''not-an-ip'' ''http'' (conn example_request_world)
     = Some (Inl (Invalid_argument ''stoi''), \<lparr>socket = Some example_socket, connected = False\<rparr>) \<and>
   connection_ready example_manager ''127.0.0.1'' ''60001''
     (example_request_world\<lparr>reads := [(1, Recv_gets (''HTTP/1.1 200 OK'' @ CRLF @ ''Connection: keep-alive'' @ CRLF @ CRLF))]\<rparr>) example_manager \<and>
   ConnectionManager_send example_manager (serializeRequest example_request)
       (sends (example_request_world\<lparr>reads := [(1, Recv_gets (''HTTP/1.1 200 OK'' @ CRLF @ ''Connection: keep-alive'' @ CRLF @ CRLF))]\<rparr>))
     = Some (Inr True) \<and>
   receive example_manager (reads (example_request_world\<lparr>reads := [(1, Recv_gets (''HTTP/1.1 200 OK'' @ CRLF @ ''Connection: keep-alive'' @ CRLF @ CRLF))]\<rparr>))
     = Some (Inr (Some (''HTTP/1.1 200 OK'' @ CRLF @ ''Connection: keep-alive'' @ CRLF @ CRLF))) \<and>
   parseResponse (''HTTP/1.1 200 OK'' @ CRLF @ ''Connection: keep-alive'' @ CRLF @ CRLF)
     = Inr (HttpResponse_init\<lparr>headers := [(''connection'', ''keep-alive'')]\<rparr>) \<and>
   isKeepAlive (HttpResponse_init\<lparr>headers := [(''connection'', ''keep-alive'')]\<rparr>) \<and>
   connection_ready example_manager ''127.0.0.1'' ''60001''
     (example_request_world\<lparr>reads := [(0, Recv_gets [])]\<rparr>) example_manager \<and>
   ConnectionManager_send example_manager (serializeRequest example_request)
       (sends (example_request_world\<lparr>reads := [(0, Recv_gets [])]\<rparr>))
     = Some (Inr True) \<and>
   receive example_manager (reads (example_request_world\<lparr>reads := [(0, Recv_gets [])]\<rparr>))
     = Some (Inr None) \<and>
   isConnected ConnectionManager_init (peek (example_request_world\<lparr>conn := example_world\<lparr>inet_pton_ret := 0\<rparr>\<rparr>))
     = (False, ConnectionManager_init) \<and>
   ConnectionManager_connect ConnectionManager_init ''not-an-ip'' ''80''
       (conn (example_request_world\<lparr>conn := example_world\<lparr>inet_pton_ret := 0\<rparr>\<rparr>))
     = Some (Inr False, \<lparr>socket = Some example_socket, connected = False\<rparr>) \<and>
   connection_ready example_manager ''127.0.0.1'' ''60001''
     (example_request_world\<lparr>sends := []\<rparr>) example_manager \<and>
   ConnectionManager_send example_manager (serializeRequest example_request)
       (sends (example_request_world\<lparr>sends := []\<rparr>))
     = None \<and>
   processRequest example_manager example_request ''127.0.0.1'' ''60001''
       (example_request_world)
     = Some (Inr (), \<lparr>socket = None, connected = False\<rparr>,
         [Log (''Connected to '' @ ''127.0.0.1'' @ '':'' @ ''60001'') INFO, Log ''Serialized request.'' DEBUG,
          Display_request example_request,
          Log ''Raw response received. Parsing....'' DEBUG,
          Display_response example_response,
          Log ''Connection not kept alive. Disconnecting.'' INFO]) \<and>
   processRequest example_manager example_request ''127.0.0.1'' ''60001''
       (example_request_world\<lparr>sends := [Send_fails 32]\<rparr>)
     = Some (Inr (), example_manager,
         [Log (''Connected to '' @ ''127.0.0.1'' @ '':'' @ ''60001'') INFO, Log ''Serialized request.'' DEBUG,
          Log_what ''Failed to process request: '' (System_error 32 ''Failed to send data'') ERROR]) \<and>
   processRequest example_manager example_request ''127.0.0.1'' ''60001''
       (example_request_world\<lparr>reads := [(1, Recv_fails 104)]\<rparr>)
     = Some (Inr (), example_manager,
         [Log (''Connected to '' @ ''127.0.0.1'' @ '':'' @ ''60001'') INFO, Log ''Serialized request.'' DEBUG,
          Display_request example_request,
          Log_what ''Failed to process request: '' (System_error 104 ''Failed to receive data'') ERROR]) \<and>
   processRequest example_manager example_request ''127.0.0.1'' ''60001''
       (example_request_world\<lparr>reads := [(1, Recv_gets (''garbage'' @ CRLF @ CRLF))]\<rparr>)
     = Some (Inr (), example_manager,
         [Log (''Connected to '' @ ''127.0.0.1'' @ '':'' @ ''60001'') INFO, Log ''Serialized request.'' DEBUG,
          Display_request example_request,
          Log ''Raw response received. Parsing....'' DEBUG,
          Log_what ''Failed to process request: ''
            (Runtime_error (Msg ''Failed to parse HTTP response.'')) ERROR]) \<and>
   processRequest ConnectionManager_init example_request ''not-an-ip'' ''http'' example_request_world
     = Some (Inr (), \<lparr>socket = Some example_socket, connected = False\<rparr>,
         [Log_what ''Failed to process request: '' (Invalid_argument ''stoi'') ERROR]) \<and>
   processRequest example_manager example_request ''127.0.0.1'' ''60001''
       (example_request_world\<lparr>reads := [(1, Recv_gets (''HTTP/1.1 200 OK'' @ CRLF @ ''Connection: keep-alive'' @ CRLF @ CRLF))]\<rparr>)
     = Some (Inr (), example_manager,
         [Log (''Connected to '' @ ''127.0.0.1'' @ '':'' @ ''60001'') INFO, Log ''Serialized request.'' DEBUG,
          Display_request example_request,
          Log ''Raw response received. Parsing....'' DEBUG,
          Display_response (HttpResponse_init\<lparr>headers := [(''connection'', ''keep-alive'')]\<rparr>)]) \<and>
   processRequest example_manager example_request ''127.0.0.1'' ''60001''
       (example_request_world\<lparr>reads := [(0, Recv_gets [])]\<rparr>)
     = Some (Inr (), example_manager,
         [Log (''Connected to '' @ ''127.0.0.1'' @ '':'' @ ''60001'') INFO, Log ''Serialized request.'' DEBUG,
          Display_request example_request,
          Log (''Failed to receive response from '' @ ''127.0.0.1'' @ '':'' @ ''60001'') ERROR]) \<and>
   processRequest ConnectionManager_init example_request ''not-an-ip'' ''80''
       (example_request_world\<lparr>conn := example_world\<lparr>inet_pton_ret := 0\<rparr>\<rparr>)
     = Some (Inr (), \<lparr>socket = Some example_socket, connected = False\<rparr>,
         [Log (''Failed to connect to '' @ ''not-an-ip'' @ '':'' @ ''80'') ERROR]) \<and>
   processRequest example_manager example_request ''127.0.0.1'' ''60001''
       (example_request_world\<lparr>sends := []\<rparr>)
     = None"
proof -
  have r1: "connection_ready example_manager ''127.0.0.1'' ''60001''
     (example_request_world) example_manager"
    by code_simp
  have s1: "ConnectionManager_send example_manager (serializeRequest example_request)
       (sends (example_request_world))
     = Some (Inr True)"
    by code_simp
  have v1: "receive example_manager (reads (example_request_world))
     = Some (Inr (Some (''HTTP/1.1 200 OK'' @ CRLF @ ''Connection: close'' @ CRLF @ CRLF)))"
    by code_simp
  have p1: "parseResponse (''HTTP/1.1 200 OK'' @ CRLF @ ''Connection: close'' @ CRLF @ CRLF) = Inr example_response"
    by code_simp
  have k1: "\<not> isKeepAlive example_response"
    by code_simp
  have r2: "connection_ready example_manager ''127.0.0.1'' ''60001''
     (example_request_world\<lparr>sends := [Send_fails 32]\<rparr>) example_manager"
    by code_simp
  have s2: "ConnectionManager_send example_manager (serializeRequest example_request)
       (sends (example_request_world\<lparr>sends := [Send_fails 32]\<rparr>))
     = Some (Inl (System_error 32 ''Failed to send data''))"
    by code_simp
  have r3: "connection_ready example_manager ''127.0.0.1'' ''60001''
     (example_request_world\<lparr>reads := [(1, Recv_fails 104)]\<rparr>) example_manager"
    by code_simp
  have s3: "ConnectionManager_send example_manager (serializeRequest example_request)
       (sends (example_request_world\<lparr>reads := [(1, Recv_fails 104)]\<rparr>))
     = Some (Inr True)"
    by code_simp
  have v3: "receive example_manager (reads (example_request_world\<lparr>reads := [(1, Recv_fails 104)]\<rparr>))
     = Some (Inl (System_error 104 ''Failed to receive data''))"
    by code_simp
  have r4: "connection_ready example_manager ''127.0.0.1'' ''60001''
     (example_request_world\<lparr>reads := [(1, Recv_gets (''garbage'' @ CRLF @ CRLF))]\<rparr>) example_manager"
    by code_simp
  have s4: "ConnectionManager_send example_manager (serializeRequest example_request)
       (sends (example_request_world\<lparr>reads := [(1, Recv_gets (''garbage'' @ CRLF @ CRLF))]\<rparr>))
     = Some (Inr True)"
    by code_simp
  have v4: "receive example_manager (reads (example_request_world\<lparr>reads := [(1, Recv_gets (''garbage'' @ CRLF @ CRLF))]\<rparr>))
     = Some (Inr (Some (''garbage'' @ CRLF @ CRLF)))"
    by code_simp
  have p4: "parseResponse (''garbage'' @ CRLF @ CRLF) = Inl (Runtime_error (Msg ''Failed to parse HTTP response.''))"
    by code_simp
  have i5: "isConnected ConnectionManager_init (peek example_request_world) = (False, ConnectionManager_init)"
    by code_simp
  have c5: "ConnectionManager_connect ConnectionManager_init ''not-an-ip'' ''http'' (conn example_request_world)
     = Some (Inl (Invalid_argument ''stoi''), \<lparr>socket = Some example_socket, connected = False\<rparr>)"
    by code_simp
  have r6: "connection_ready example_manager ''127.0.0.1'' ''60001''
     (example_request_world\<lparr>reads := [(1, Recv_gets (''HTTP/1.1 200 OK'' @ CRLF @ ''Connection: keep-alive'' @ CRLF @ CRLF))]\<rparr>) example_manager"
    by code_simp
  have s6: "ConnectionManager_send example_manager (serializeRequest example_request)
       (sends (example_request_world\<lparr>reads := [(1, Recv_gets (''HTTP/1.1 200 OK'' @ CRLF @ ''Connection: keep-alive'' @ CRLF @ CRLF))]\<rparr>))
     = Some (Inr True)"
    by code_simp
  have v6: "receive example_manager (reads (example_request_world\<lparr>reads := [(1, Recv_gets (''HTTP/1.1 200 OK'' @ CRLF @ ''Connection: keep-alive'' @ CRLF @ CRLF))]\<rparr>))
     = Some (Inr (Some (''HTTP/1.1 200 OK'' @ CRLF @ ''Connection: keep-alive'' @ CRLF @ CRLF)))"
    by code_simp
  have p6: "parseResponse (''HTTP/1.1 200 OK'' @ CRLF @ ''Connection: keep-alive'' @ CRLF @ CRLF)
     = Inr (HttpResponse_init\<lparr>headers := [(''connection'', ''keep-alive'')]\<rparr>)"
    by code_simp
  have k6: "isKeepAlive (HttpResponse_init\<lparr>headers := [(''connection'', ''keep-alive'')]\<rparr>)"
    by code_simp
  have r7: "connection_ready example_manager ''127.0.0.1'' ''60001''
     (example_request_world\<lparr>reads := [(0, Recv_gets [])]\<rparr>) example_manager"
    by code_simp
  have s7: "ConnectionManager_send example_manager (serializeRequest example_request)
       (sends (example_request_world\<lparr>reads := [(0, Recv_gets [])]\<rparr>))
     = Some (Inr True)"
    by code_simp
  have v7: "receive example_manager (reads (example_request_world\<lparr>reads := [(0, Recv_gets [])]\<rparr>))
     = Some (Inr None)"
    by code_simp
  have i8: "isConnected ConnectionManager_init (peek (example_request_world\<lparr>conn := example_world\<lparr>inet_pton_ret := 0\<rparr>\<rparr>))
     = (False, ConnectionManager_init)"
    by code_simp
  have c8: "ConnectionManager_connect ConnectionManager_init ''not-an-ip'' ''80''
       (conn (example_request_world\<lparr>conn := example_world\<lparr>inet_pton_ret := 0\<rparr>\<rparr>))
     = Some (Inr False, \<lparr>socket = Some example_socket, connected = False\<rparr>)"
    by code_simp
  have r9: "connection_ready example_manager ''127.0.0.1'' ''60001''
     (example_request_world\<lparr>sends := []\<rparr>) example_manager"
    by code_simp
  have s9: "ConnectionManager_send example_manager (serializeRequest example_request)
       (sends (example_request_world\<lparr>sends := []\<rparr>))
     = None"
    by code_simp
  have q1: "processRequest example_manager example_request ''127.0.0.1'' ''60001''
       (example_request_world)
     = Some (Inr (), \<lparr>socket = None, connected = False\<rparr>,
         [Log (''Connected to '' @ ''127.0.0.1'' @ '':'' @ ''60001'') INFO, Log ''Serialized request.'' DEBUG,
          Display_request example_request,
          Log ''Raw response received. Parsing....'' DEBUG,
          Display_response example_response,
          Log ''Connection not kept alive. Disconnecting.'' INFO])"
    using processRequest_contains_exceptions[where m = example_manager and request = example_request
      and ip = "''127.0.0.1''" and port = "''60001''"
      and w = "example_request_world"
      and mB = example_manager
      and raw = "''HTTP/1.1 200 OK'' @ CRLF @ ''Connection: close'' @ CRLF @ CRLF"
      and response = "example_response",
      THEN conjunct2,
      THEN conjunct2,
      THEN conjunct2,
      THEN conjunct2,
      THEN conjunct2,
      THEN conjunct2,
      THEN conjunct2, THEN conjunct1]
      r1 s1 v1 p1 k1
    by blast
  have q2: "processRequest example_manager example_request ''127.0.0.1'' ''60001''
       (example_request_world\<lparr>sends := [Send_fails 32]\<rparr>)
     = Some (Inr (), example_manager,
         [Log (''Connected to '' @ ''127.0.0.1'' @ '':'' @ ''60001'') INFO, Log ''Serialized request.'' DEBUG,
          Log_what ''Failed to process request: '' (System_error 32 ''Failed to send data'') ERROR])"
    using processRequest_contains_exceptions[where m = example_manager and request = example_request
      and ip = "''127.0.0.1''" and port = "''60001''"
      and w = "example_request_world\<lparr>sends := [Send_fails 32]\<rparr>"
      and mB = example_manager
      and e = "System_error 32 ''Failed to send data''",
      THEN conjunct2,
      THEN conjunct2, THEN conjunct1]
      r2 s2
    by blast
  have q3: "processRequest example_manager example_request ''127.0.0.1'' ''60001''
       (example_request_world\<lparr>reads := [(1, Recv_fails 104)]\<rparr>)
     = Some (Inr (), example_manager,
         [Log (''Connected to '' @ ''127.0.0.1'' @ '':'' @ ''60001'') INFO, Log ''Serialized request.'' DEBUG,
          Display_request example_request,
          Log_what ''Failed to process request: '' (System_error 104 ''Failed to receive data'') ERROR])"
    using processRequest_contains_exceptions[where m = example_manager and request = example_request
      and ip = "''127.0.0.1''" and port = "''60001''"
      and w = "example_request_world\<lparr>reads := [(1, Recv_fails 104)]\<rparr>"
      and mB = example_manager
      and e = "System_error 104 ''Failed to receive data''",
      THEN conjunct2,
      THEN conjunct2,
      THEN conjunct2,
      THEN conjunct2, THEN conjunct1]
      r3 s3 v3
    by blast
  have q4: "processRequest example_manager example_request ''127.0.0.1'' ''60001''
       (example_request_world\<lparr>reads := [(1, Recv_gets (''garbage'' @ CRLF @ CRLF))]\<rparr>)
     = Some (Inr (), example_manager,
         [Log (''Connected to '' @ ''127.0.0.1'' @ '':'' @ ''60001'') INFO, Log ''Serialized request.'' DEBUG,
          Display_request example_request,
          Log ''Raw response received. Parsing....'' DEBUG,
          Log_what ''Failed to process request: ''
            (Runtime_error (Msg ''Failed to parse HTTP response.'')) ERROR])"
    using processRequest_contains_exceptions[where m = example_manager and request = example_request
      and ip = "''127.0.0.1''" and port = "''60001''"
      and w = "example_request_world\<lparr>reads := [(1, Recv_gets (''garbage'' @ CRLF @ CRLF))]\<rparr>"
      and mB = example_manager
      and e = "Runtime_error (Msg ''Failed to parse HTTP response.'')"
      and raw = "''garbage'' @ CRLF @ CRLF",
      THEN conjunct2,
      THEN conjunct2,
      THEN conjunct2,
      THEN conjunct2,
      THEN conjunct2,
      THEN conjunct2, THEN conjunct1]
      r4 s4 v4 p4
    by blast
  have q5: "processRequest ConnectionManager_init example_request ''not-an-ip'' ''http'' example_request_world
     = Some (Inr (), \<lparr>socket = Some example_socket, connected = False\<rparr>,
         [Log_what ''Failed to process request: '' (Invalid_argument ''stoi'') ERROR])"
    using processRequest_contains_exceptions[where m = ConnectionManager_init and request = example_request
      and ip = "''not-an-ip''" and port = "''http''"
      and w = "example_request_world"
      and mA = ConnectionManager_init and mC = "\<lparr>socket = Some example_socket, connected = False\<rparr>"
      and e = "Invalid_argument ''stoi''", THEN conjunct1]
      i5 c5
    by blast
  have q6: "processRequest example_manager example_request ''127.0.0.1'' ''60001''
       (example_request_world\<lparr>reads := [(1, Recv_gets (''HTTP/1.1 200 OK'' @ CRLF @ ''Connection: keep-alive'' @ CRLF @ CRLF))]\<rparr>)
     = Some (Inr (), example_manager,
         [Log (''Connected to '' @ ''127.0.0.1'' @ '':'' @ ''60001'') INFO, Log ''Serialized request.'' DEBUG,
          Display_request example_request,
          Log ''Raw response received. Parsing....'' DEBUG,
          Display_response (HttpResponse_init\<lparr>headers := [(''connection'', ''keep-alive'')]\<rparr>)])"
    using processRequest_contains_exceptions[where m = example_manager and request = example_request
      and ip = "''127.0.0.1''" and port = "''60001''"
      and w = "example_request_world\<lparr>reads := [(1, Recv_gets (''HTTP/1.1 200 OK'' @ CRLF @ ''Connection: keep-alive'' @ CRLF @ CRLF))]\<rparr>"
      and mB = example_manager
      and raw = "''HTTP/1.1 200 OK'' @ CRLF @ ''Connection: keep-alive'' @ CRLF @ CRLF"
      and response = "HttpResponse_init\<lparr>headers := [(''connection'', ''keep-alive'')]\<rparr>",
      THEN conjunct2,
      THEN conjunct2,
      THEN conjunct2,
      THEN conjunct2,
      THEN conjunct2,
      THEN conjunct2,
      THEN conjunct2,
      THEN conjunct2, THEN conjunct1]
      r6 s6 v6 p6 k6
    by blast
  have q7: "processRequest example_manager example_request ''127.0.0.1'' ''60001''
       (example_request_world\<lparr>reads := [(0, Recv_gets [])]\<rparr>)
     = Some (Inr (), example_manager,
         [Log (''Connected to '' @ ''127.0.0.1'' @ '':'' @ ''60001'') INFO, Log ''Serialized request.'' DEBUG,
          Display_request example_request,
          Log (''Failed to receive response from '' @ ''127.0.0.1'' @ '':'' @ ''60001'') ERROR])"
    using processRequest_contains_exceptions[where m = example_manager and request = example_request
      and ip = "''127.0.0.1''" and port = "''60001''"
      and w = "example_request_world\<lparr>reads := [(0, Recv_gets [])]\<rparr>"
      and mB = example_manager,
      THEN conjunct2,
      THEN conjunct2,
      THEN conjunct2,
      THEN conjunct2,
      THEN conjunct2, THEN conjunct1]
      r7 s7 v7
    by blast
  have q8: "processRequest ConnectionManager_init example_request ''not-an-ip'' ''80''
       (example_request_world\<lparr>conn := example_world\<lparr>inet_pton_ret := 0\<rparr>\<rparr>)
     = Some (Inr (), \<lparr>socket = Some example_socket, connected = False\<rparr>,
         [Log (''Failed to connect to '' @ ''not-an-ip'' @ '':'' @ ''80'') ERROR])"
    using processRequest_contains_exceptions[where m = ConnectionManager_init and request = example_request
      and ip = "''not-an-ip''" and port = "''80''"
      and w = "example_request_world\<lparr>conn := example_world\<lparr>inet_pton_ret := 0\<rparr>\<rparr>"
      and mA = ConnectionManager_init and mC = "\<lparr>socket = Some example_socket, connected = False\<rparr>",
      THEN conjunct2, THEN conjunct1]
      i8 c8
    by blast
  have q9: "processRequest example_manager example_request ''127.0.0.1'' ''60001''
       (example_request_world\<lparr>sends := []\<rparr>)
     = None"
    using processRequest_contains_exceptions[where m = example_manager and request = example_request
      and ip = "''127.0.0.1''" and port = "''60001''"
      and w = "example_request_world\<lparr>sends := []\<rparr>"
      and mB = example_manager,
      THEN conjunct2,
      THEN conjunct2,
      THEN conjunct2,
      THEN conjunct2,
      THEN conjunct2,
      THEN conjunct2,
      THEN conjunct2,
      THEN conjunct2,
      THEN conjunct2,
      THEN conjunct2,
      THEN conjunct2,
      THEN conjunct2,
      THEN conjunct2, THEN conjunct1]
      r9 s9
    by blast
  from r1 s1 v1 p1 k1 r2 s2 r3 s3 v3 r4 s4 v4 p4 i5 c5 r6 s6 v6 p6 k6 r7 s7 v7 i8 c8 r9 s9 q1 q2 q3 q4 q5 q6 q7 q8 q9
  show ?thesis
    by (intro conjI)
qed

end
